theory Spec2Isabelle
  imports Main "HOL-Library.Word"
begin

section \<open>Data model of \<open>internal/dhcpd/check_other_dhcp.go\<close>\<close>

text \<open>
  The file holds the two probes \<open>CheckIfOtherDHCPServersPresentV4\<close> and
  \<open>CheckIfOtherDHCPServersPresentV6\<close>. Everything they call lives outside the file
  (the Go standard library, the DHCP codec library, the raw-socket helper, and the package
  helpers \<open>getIfaceIPv4\<close>, \<open>getIfaceIPv6\<close>, \<open>isTimeout\<close>, \<open>defaultDiscoverTime\<close>).
  Those collaborators are parameters of the model, gathered in the record \<open>env\<close>,
  but for \<open>dhcpv6.NewSolicit\<close>, which is modelled from the spec;
  the two probes are translated statement by statement.
\<close>

type_synonym bytes = "8 word list"

text \<open>
  Go's \<open>error\<close> values. \<open>Error s\<close> is an error without an operand of \<open>%w\<close> (made by a
  collaborator, or by \<open>fmt.Errorf\<close> with a format that has no \<open>%w\<close>);
  \<open>Errorf s e\<close> is \<open>fmt.Errorf(s, ..., e)\<close> where \<open>e\<close> is the operand of \<open>%w\<close>,
  \<open>None\<close> when that operand is \<open>nil\<close>. The other operands of the format are not kept.
\<close>

datatype error = Error string | Errorf string "error option"

text \<open>What a call of a probe does: it returns \<open>(bool, error)\<close> or it panics.\<close>

datatype outcome = Return bool "error option" | Panic

text \<open>\<open>net.Interface\<close>, \<open>net.IP\<close> and \<open>net.UDPAddr\<close>, with the fields the probes read.\<close>

type_synonym IP = bytes

record Interface =
  Name :: string
  HardwareAddr :: bytes

record UDPAddr =
  IP :: IP
  Port :: nat

text \<open>
  \<open>dhcpv4.DHCPv4\<close>: the fields the probe reads. \<open>Options\<close> is the library's map from
  option code to value; \<open>Has\<close> and \<open>Update\<close> are its two methods used here.
\<close>

record DHCPv4 =
  OpCode :: "8 word"
  HWType :: "16 word"
  TransactionID :: bytes
  ClientHWAddr :: bytes
  Options :: "8 word \<rightharpoonup> bytes"

definition Has :: "(8 word \<rightharpoonup> bytes) \<Rightarrow> 8 word \<Rightarrow> bool" where
  "Has opts code = (opts code \<noteq> None)"

definition Update :: "8 word \<times> bytes \<Rightarrow> (8 word \<rightharpoonup> bytes) \<Rightarrow> (8 word \<rightharpoonup> bytes)" where
  "Update opt opts = opts(fst opt \<mapsto> snd opt)"

text \<open>The protocol constants of RFC 2131, RFC 2132 and RFC 8415 named in the source.\<close>

definition OpcodeBootReply :: "8 word" where "OpcodeBootReply = 2"
definition HWTypeEthernet :: "16 word" where "HWTypeEthernet = 1"
definition OptionDHCPMessageType :: "8 word" where "OptionDHCPMessageType = 53"
definition OptionClientIdentifier :: "8 word" where "OptionClientIdentifier = 61"
definition OptionHostName :: "8 word" where "OptionHostName = 12"
definition MessageTypeAdvertise :: "8 word" where "MessageTypeAdvertise = 2"
definition DefaultClientPort :: nat where "DefaultClientPort = 546"

definition OptClientIdentifier :: "bytes \<Rightarrow> 8 word \<times> bytes" where
  "OptClientIdentifier ident = (OptionClientIdentifier, ident)"

definition OptHostName :: "string \<Rightarrow> 8 word \<times> bytes" where
  "OptHostName name = (OptionHostName, map (\<lambda>c. of_nat (of_char c)) name)"

text \<open>
  \<open>dhcpv6.Message\<close> with the fields the probe reads: \<open>ClientID\<close> is the result of
  \<open>Options.ClientID()\<close>, a pointer to a DUID that is \<open>nil\<close> (\<open>None\<close>) when the option is
  absent. A DUID is kept as its content and \<open>Duid.Equal\<close> is equality of contents.
  A decoded \<open>dhcpv6.DHCPv6\<close> (a message or a relay envelope) is what the probe observes
  of it: the results of \<open>Type()\<close> and \<open>GetInnerMessage()\<close>.
\<close>

type_synonym Duid = bytes

record Message6 =
  MessageType :: "8 word"
  TransactionID6 :: bytes
  ClientID :: "Duid option"

record DHCPv6 =
  Type :: "8 word"
  GetInnerMessage :: "error + Message6"

subsection \<open>The endpoint and the clock\<close>

text \<open>
  What the network delivers to the bound endpoint: the \<open>k\<close>-th inbound event is a
  datagram or a transport error, with the time at which it reaches the socket.
\<close>

datatype inbound_event = Datagram bytes | ReadError error

text \<open>
  The calls made on the endpoint, in order. A read is logged with what it returned
  (\<open>b[:n]\<close> and \<open>err\<close>), a bind attempt whether it succeeded or not.
\<close>

datatype event =
    EvListen
  | EvWriteTo bytes UDPAddr
  | EvSetReadDeadline nat
  | EvReadFrom bytes "error option"
  | EvClose

text \<open>
  The state a probe changes: the clock (\<open>time.Now()\<close>), the read deadline of the socket,
  the number of inbound events already delivered, and the log of endpoint calls.
  The clock is logical: it moves only while a read blocks, up to the arrival of the
  event the read returns or up to the deadline.
\<close>

record world =
  clock :: nat
  deadline :: "nat option"
  received :: nat
  trace :: "event list"

text \<open>The collaborators, as parameters.\<close>

record env =
  GOOS :: string
  Hostname :: string
  InterfaceByName :: "string \<Rightarrow> error + Interface"
  getIfaceIPv4 :: "Interface \<Rightarrow> IP list"
  getIfaceIPv6 :: "Interface \<Rightarrow> IP list"
  IPString :: "IP \<Rightarrow> string"
  JoinHostPort :: "string \<Rightarrow> string \<Rightarrow> string"
  ResolveUDPAddr :: "string \<Rightarrow> string \<Rightarrow> error + UDPAddr"
  To4 :: "IP \<Rightarrow> IP"
  To16 :: "IP \<Rightarrow> IP"
  IPEqual :: "IP \<Rightarrow> IP \<Rightarrow> bool"
  NewDiscovery :: "bytes \<Rightarrow> error + DHCPv4"
  SolicitIDs :: "bytes \<Rightarrow> error + (bytes \<times> Duid)"
  ToBytes4 :: "DHCPv4 \<Rightarrow> bytes"
  ToBytes6 :: "Message6 \<Rightarrow> bytes"
  FromBytes4 :: "bytes \<Rightarrow> error + DHCPv4"
  FromBytes6 :: "bytes \<Rightarrow> error + DHCPv6"
  NewRawUDPConn :: "string \<Rightarrow> nat \<Rightarrow> bool \<times> error option"
  NewIPv6UDPConn :: "string \<Rightarrow> nat \<Rightarrow> bool \<times> error option"
  WriteToErr :: "bytes \<Rightarrow> UDPAddr \<Rightarrow> error option"
  inbound :: "nat \<Rightarrow> nat \<times> inbound_event"
  isTimeout :: "error option \<Rightarrow> bool"
  defaultDiscoverTime :: nat

text \<open>
  \<open>NewRawUDPConn\<close> and \<open>NewIPv6UDPConn\<close> return the Go pair \<open>(c, err)\<close>; the first
  component says whether \<open>c\<close> is non-nil. \<open>WriteToErr\<close> is the error of \<open>c.WriteTo\<close>.
  \<open>SolicitIDs\<close> gives what is generated afresh for a SOLICIT from a hardware address:
  the transaction id and the client identifier, or the error of generating them.
\<close>

text \<open>
  Modelled from the spec: \<open>dhcpv6.NewSolicit\<close>, the builder of the SOLICIT, which is
  code of the DHCP library and not under \<open>src/\<close>. Section 4.2, step 2: "Build a SOLICIT
  message; it carries a client-identifier option generated fresh for this request and a
  transaction id." The request it returns always has the client-identifier option, so
  \<open>Options.ClientID()\<close> of it is not \<open>nil\<close>.
\<close>

definition MessageTypeSolicit :: "8 word" where "MessageTypeSolicit = 1"

definition NewSolicit :: "env \<Rightarrow> bytes \<Rightarrow> error + Message6" where
  "NewSolicit E hw =
    (case SolicitIDs E hw of
       Inl err \<Rightarrow> Inl err
     | Inr ids \<Rightarrow>
         Inr \<lparr>MessageType = MessageTypeSolicit, TransactionID6 = fst ids,
              ClientID = Some (snd ids)\<rparr>)"

text \<open>The error a read returns when its deadline passes.\<close>

definition ErrDeadlineExceeded :: error where
  "ErrDeadlineExceeded = Error ''i/o timeout''"

definition log_event :: "event \<Rightarrow> world \<Rightarrow> world" where
  "log_event e w = w\<lparr>trace := trace w @ [e]\<rparr>"

definition SetReadDeadline :: "nat \<Rightarrow> world \<Rightarrow> world" where
  "SetReadDeadline t w = log_event (EvSetReadDeadline t) (w\<lparr>deadline := Some t\<rparr>)"

text \<open>
  \<open>c.ReadFrom(b)\<close> with \<open>len(b) = sz\<close>: it blocks until the next inbound event reaches
  the socket or the deadline passes, whichever is first. It returns \<open>(b[:n], err)\<close>; a
  datagram longer than the buffer is cut to the buffer.
\<close>

definition ReadFrom :: "env \<Rightarrow> nat \<Rightarrow> world \<Rightarrow> (bytes \<times> error option) \<times> world" where
  "ReadFrom E sz w =
    (let at = fst (inbound E (received w));
         ev = snd (inbound E (received w))
     in if (case deadline w of None \<Rightarrow> True | Some d \<Rightarrow> at \<le> d)
        then (let r = (case ev of
                         Datagram p \<Rightarrow> (take sz p, None)
                       | ReadError e \<Rightarrow> ([], Some e))
              in (r, log_event (EvReadFrom (fst r) (snd r))
                       (w\<lparr>clock := max (clock w) at, received := received w + 1\<rparr>)))
        else (([], Some ErrDeadlineExceeded),
              log_event (EvReadFrom [] (Some ErrDeadlineExceeded))
                (w\<lparr>clock := max (clock w) (the (deadline w))\<rparr>)))"

definition WriteTo :: "env \<Rightarrow> bytes \<Rightarrow> UDPAddr \<Rightarrow> world \<Rightarrow> error option \<times> world" where
  "WriteTo E b addr w = (WriteToErr E b addr, log_event (EvWriteTo b addr) w)"

definition Close :: "world \<Rightarrow> world" where
  "Close w = log_event EvClose w"

text \<open>
  Lines 88-90 and 177-179, the same in either loop: a fresh buffer of \<open>sz\<close> bytes, the
  read deadline set to \<open>time.Now().Add(defaultDiscoverTime)\<close>, then the read.
\<close>

definition readOnce :: "env \<Rightarrow> nat \<Rightarrow> world \<Rightarrow> (bytes \<times> error option) \<times> world" where
  "readOnce E sz w = ReadFrom E sz (SetReadDeadline (clock w + defaultDiscoverTime E) w)"

section \<open>The DHCPv4 probe\<close>

text \<open>The condition of lines 110-114, before its negation.\<close>

definition matchesV4 :: "Interface \<Rightarrow> DHCPv4 \<Rightarrow> DHCPv4 \<Rightarrow> bool" where
  "matchesV4 iface req response =
    (OpCode response = OpcodeBootReply \<and>
     HWType response = HWTypeEthernet \<and>
     ClientHWAddr response = HardwareAddr iface \<and>
     TransactionID response = TransactionID req \<and>
     Has (Options response) OptionDHCPMessageType)"

text \<open>The \<open>for\<close> loop of lines 84-122. \<open>None\<close> is a loop that never returns.\<close>

partial_function (option) recvLoopV4 ::
  "env \<Rightarrow> Interface \<Rightarrow> DHCPv4 \<Rightarrow> world \<Rightarrow> (outcome \<times> world) option" where
  "recvLoopV4 E iface req w =
    (let rd = readOnce E 1500 w;
         b = fst (fst rd); err = snd (fst rd); w2 = snd rd
     in if isTimeout E err then Some (Return False None, w2)
        else if err \<noteq> None
        then Some (Return False (Some (Errorf ''couldn't receive packet: %w'' err)), w2)
        else (case FromBytes4 E b of
                Inl err \<Rightarrow> recvLoopV4 E iface req w2
              | Inr response \<Rightarrow>
                  if \<not> matchesV4 iface req response
                  then recvLoopV4 E iface req w2
                  else Some (Return True None, w2)))"

declare recvLoopV4.simps [code]

text \<open>
  \<open>defer c.Close()\<close>: the endpoint is closed when the function is left, whatever the
  way out (a return or a panic).
\<close>

definition deferClose :: "(outcome \<times> world) option \<Rightarrow> (outcome \<times> world) option" where
  "deferClose r = map_option (\<lambda>(out, w). (out, Close w)) r"

text \<open>The error of a Go pair \<open>(v, err)\<close>: \<open>nil\<close> when the call succeeded.\<close>

definition err_of :: "error + 'a \<Rightarrow> error option" where
  "err_of r = (case r of Inl e \<Rightarrow> Some e | Inr v \<Rightarrow> None)"

text \<open>Lines 78-122: the send, then the receive loop.\<close>

definition sendRecvV4 ::
  "env \<Rightarrow> Interface \<Rightarrow> DHCPv4 \<Rightarrow> UDPAddr \<Rightarrow> world \<Rightarrow> (outcome \<times> world) option" where
  "sendRecvV4 E iface req dstAddr w =
    (let wr = WriteTo E (ToBytes4 E req) dstAddr w;
         err = fst wr; w1 = snd wr
     in if err \<noteq> None
        then Some (Return False (Some (Errorf ''couldn't send a packet to %s: %w'' err)), w1)
        else recvLoopV4 E iface req w1)"

text \<open>
  Lines 68-122. A \<open>nil\<close> connection returned without an error registers no deferred
  close, and the call \<open>c.WriteTo\<close> on it panics.
\<close>

definition listenV4 ::
  "env \<Rightarrow> string \<Rightarrow> Interface \<Rightarrow> DHCPv4 \<Rightarrow> UDPAddr \<Rightarrow> world \<Rightarrow> (outcome \<times> world) option" where
  "listenV4 E ifaceName iface req dstAddr w =
    (let w1 = log_event EvListen w;
         c = fst (NewRawUDPConn E ifaceName 68);
         err = snd (NewRawUDPConn E ifaceName 68)
     in if err \<noteq> None
        then Some (Return False (Some (Errorf ''couldn't listen on :68: %w'' err)), w1)
        else if c then deferClose (sendRecvV4 E iface req dstAddr w1)
        else Some (Panic, w1))"

text \<open>
  Lines 24-66: everything before the endpoint is bound. It touches no endpoint, so it
  is a function of the collaborators only: the error of an early return, or the
  interface, the request and the destination address the rest of the probe uses.
  The variable \<open>err\<close> of the source is kept where a later statement reads it.
\<close>

definition prepareV4 :: "env \<Rightarrow> string \<Rightarrow> error + (Interface \<times> DHCPv4 \<times> UDPAddr)" where
  "prepareV4 E ifaceName =
    (case InterfaceByName E ifaceName of
       Inl err \<Rightarrow> Inl (Errorf ''couldn't find interface by name %s: %w'' (Some err))
     | Inr iface \<Rightarrow>
        (let ifaceIPNet = getIfaceIPv4 E iface
         in if length ifaceIPNet = 0
            then Inl (Error ''couldn't find IPv4 address of interface %s %+v'')
            else if GOOS E = ''darwin''
            then Inl (Error ''can't find DHCP server: not supported on macOS'')
            else
             (let srcIP = ifaceIPNet ! 0;
                  src = JoinHostPort E (IPString E srcIP) ''68'';
                  dst = ''255.255.255.255:67'';
                  hostname = Hostname E
              in case NewDiscovery E (HardwareAddr iface) of
                   Inl err \<Rightarrow> Inl (Errorf ''dhcpv4.NewDiscovery: %w'' (Some err))
                 | Inr req0 \<Rightarrow>
                    (let req = req0\<lparr>Options :=
                           Update (OptHostName hostname)
                             (Update (OptClientIdentifier (HardwareAddr iface)) (Options req0))\<rparr>;
                         res = ResolveUDPAddr E ''udp4'' src;
                         err = err_of res
                     in case res of
                          Inl e \<Rightarrow> Inl (Errorf ''couldn't resolve UDP address %s: %w'' err)
                        | Inr udpAddr \<Rightarrow>
                            if \<not> IPEqual E (To4 E (IP udpAddr)) srcIP
                            then Inl (Errorf ''resolved UDP address is not %s: %w'' err)
                            else (case ResolveUDPAddr E ''udp4'' dst of
                                    Inl err \<Rightarrow>
                                      Inl (Errorf ''couldn't resolve UDP address %s: %w''
                                             (Some err))
                                  | Inr dstAddr \<Rightarrow> Inr (iface, req, dstAddr))))))"

definition CheckIfOtherDHCPServersPresentV4 ::
  "env \<Rightarrow> string \<Rightarrow> world \<Rightarrow> (outcome \<times> world) option" where
  "CheckIfOtherDHCPServersPresentV4 E ifaceName w =
    (case prepareV4 E ifaceName of
       Inl err \<Rightarrow> Some (Return False (Some err), w)
     | Inr p \<Rightarrow> listenV4 E ifaceName (fst p) (fst (snd p)) (snd (snd p)) w)"

section \<open>The DHCPv6 probe\<close>

text \<open>
  The condition of lines 205-208, with Go's left-to-right short-circuit evaluation.
  \<open>cid.Equal(*rcid)\<close> dereferences both pointers; \<open>None\<close> is the nil-pointer panic.
\<close>

definition matchesV6 :: "Message6 \<Rightarrow> DHCPv6 \<Rightarrow> Message6 \<Rightarrow> bool option" where
  "matchesV6 req resp msg =
    (let cid = ClientID req; rcid = ClientID msg
     in if Type resp = MessageTypeAdvertise \<and>
           TransactionID6 msg = TransactionID6 req \<and>
           rcid \<noteq> None
        then (case cid of
                None \<Rightarrow> None
              | Some c \<Rightarrow> (case rcid of None \<Rightarrow> None | Some r \<Rightarrow> Some (c = r)))
        else Some False)"

text \<open>The \<open>for\<close> loop of lines 175-214.\<close>

partial_function (option) recvLoopV6 ::
  "env \<Rightarrow> Message6 \<Rightarrow> world \<Rightarrow> (outcome \<times> world) option" where
  "recvLoopV6 E req w =
    (let rd = readOnce E 4096 w;
         b = fst (fst rd); err = snd (fst rd); w2 = snd rd
     in if isTimeout E err then Some (Return False None, w2)
        else if err \<noteq> None
        then Some (Return False (Some (Errorf ''couldn't receive packet: %w'' err)), w2)
        else (case FromBytes6 E b of
                Inl err \<Rightarrow> recvLoopV6 E req w2
              | Inr resp \<Rightarrow>
                 (case GetInnerMessage resp of
                    Inl err \<Rightarrow> recvLoopV6 E req w2
                  | Inr msg \<Rightarrow>
                     (case matchesV6 req resp msg of
                        None \<Rightarrow> Some (Panic, w2)
                      | Some ok \<Rightarrow>
                          if ok then Some (Return True None, w2)
                          else recvLoopV6 E req w2))))"

declare recvLoopV6.simps [code]

definition sendRecvV6 ::
  "env \<Rightarrow> Message6 \<Rightarrow> UDPAddr \<Rightarrow> world \<Rightarrow> (outcome \<times> world) option" where
  "sendRecvV6 E req dstAddr w =
    (let wr = WriteTo E (ToBytes6 E req) dstAddr w;
         err = fst wr; w1 = snd wr
     in if err \<noteq> None
        then Some (Return False
          (Some (Errorf ''dhcpv6: Couldn't send a packet to %s: %w'' err)), w1)
        else recvLoopV6 E req w1)"

definition listenV6 ::
  "env \<Rightarrow> string \<Rightarrow> Message6 \<Rightarrow> UDPAddr \<Rightarrow> world \<Rightarrow> (outcome \<times> world) option" where
  "listenV6 E ifaceName req dstAddr w =
    (let w1 = log_event EvListen w;
         c = fst (NewIPv6UDPConn E ifaceName DefaultClientPort);
         err = snd (NewIPv6UDPConn E ifaceName DefaultClientPort)
     in if err \<noteq> None
        then Some (Return False (Some (Errorf ''dhcpv6: Couldn't listen on :546: %w'' err)), w1)
        else if c then deferClose (sendRecvV6 E req dstAddr w1)
        else Some (Panic, w1))"

text \<open>Lines 128-159: everything before the endpoint is bound.\<close>

definition prepareV6 :: "env \<Rightarrow> string \<Rightarrow> error + (Message6 \<times> UDPAddr)" where
  "prepareV6 E ifaceName =
    (case InterfaceByName E ifaceName of
       Inl err \<Rightarrow> Inl (Errorf ''dhcpv6: net.InterfaceByName: %s: %w'' (Some err))
     | Inr iface \<Rightarrow>
        (let ifaceIPNet = getIfaceIPv6 E iface
         in if length ifaceIPNet = 0
            then Inl (Error ''dhcpv6: couldn't find IPv6 address of interface %s %+v'')
            else
             (let srcIP = ifaceIPNet ! 0;
                  src = JoinHostPort E (IPString E srcIP) ''546'';
                  dst = ''[ff02::1:2]:547''
              in case NewSolicit E (HardwareAddr iface) of
                   Inl err \<Rightarrow> Inl (Errorf ''dhcpv6: dhcpv6.NewSolicit: %w'' (Some err))
                 | Inr req \<Rightarrow>
                    (let res = ResolveUDPAddr E ''udp6'' src;
                         err = err_of res
                     in case res of
                          Inl e \<Rightarrow>
                            Inl (Errorf ''dhcpv6: Couldn't resolve UDP address %s: %w'' err)
                        | Inr udpAddr \<Rightarrow>
                            if \<not> IPEqual E (To16 E (IP udpAddr)) srcIP
                            then Inl (Errorf ''dhcpv6: Resolved UDP address is not %s: %w'' err)
                            else (case ResolveUDPAddr E ''udp6'' dst of
                                    Inl err \<Rightarrow>
                                      Inl (Errorf
                                             ''dhcpv6: Couldn't resolve UDP address %s: %w''
                                             (Some err))
                                  | Inr dstAddr \<Rightarrow> Inr (req, dstAddr))))))"

definition CheckIfOtherDHCPServersPresentV6 ::
  "env \<Rightarrow> string \<Rightarrow> world \<Rightarrow> (outcome \<times> world) option" where
  "CheckIfOtherDHCPServersPresentV6 E ifaceName w =
    (case prepareV6 E ifaceName of
       Inl err \<Rightarrow> Some (Return False (Some err), w)
     | Inr p \<Rightarrow> listenV6 E ifaceName (fst p) (snd p) w)"

section \<open>Reading the log of endpoint calls\<close>

fun isSetReadDeadline :: "event \<Rightarrow> bool" where
  "isSetReadDeadline (EvSetReadDeadline t) = True"
| "isSetReadDeadline e = False"

fun isReadFrom :: "event \<Rightarrow> bool" where
  "isReadFrom (EvReadFrom b err) = True"
| "isReadFrom e = False"

text \<open>How many times a stretch of the log sets the read deadline, and how many reads it holds.\<close>

definition deadlinesSet :: "event list \<Rightarrow> nat" where
  "deadlinesSet evs = length (filter isSetReadDeadline evs)"

definition reads :: "event list \<Rightarrow> nat" where
  "reads evs = length (filter isReadFrom evs)"

section \<open>Inbound traffic as a receive loop sees it\<close>

text \<open>
  What a loop does with the bytes of one datagram: it drops them (they do not decode, or
  the decoded reply does not match the request) or it accepts them.
\<close>

definition droppedV4 :: "env \<Rightarrow> Interface \<Rightarrow> DHCPv4 \<Rightarrow> bytes \<Rightarrow> bool" where
  "droppedV4 E iface req b =
    (case FromBytes4 E b of
       Inl e \<Rightarrow> True
     | Inr response \<Rightarrow> \<not> matchesV4 iface req response)"

definition acceptedV4 :: "env \<Rightarrow> Interface \<Rightarrow> DHCPv4 \<Rightarrow> bytes \<Rightarrow> bool" where
  "acceptedV4 E iface req b =
    (case FromBytes4 E b of
       Inl e \<Rightarrow> False
     | Inr response \<Rightarrow> matchesV4 iface req response)"

definition droppedV6 :: "env \<Rightarrow> Message6 \<Rightarrow> bytes \<Rightarrow> bool" where
  "droppedV6 E req b =
    (case FromBytes6 E b of
       Inl e \<Rightarrow> True
     | Inr resp \<Rightarrow>
        (case GetInnerMessage resp of
           Inl e \<Rightarrow> True
         | Inr msg \<Rightarrow> matchesV6 req resp msg = Some False))"

definition acceptedV6 :: "env \<Rightarrow> Message6 \<Rightarrow> bytes \<Rightarrow> bool" where
  "acceptedV6 E req b =
    (case FromBytes6 E b of
       Inl e \<Rightarrow> False
     | Inr resp \<Rightarrow>
        (case GetInnerMessage resp of
           Inl e \<Rightarrow> False
         | Inr msg \<Rightarrow> matchesV6 req resp msg = Some True))"

text \<open>The arrival time of the \<open>k\<close>-th inbound event, and its payload when it is a datagram.\<close>

definition arrival :: "env \<Rightarrow> nat \<Rightarrow> nat" where
  "arrival E k = fst (inbound E k)"

definition datagram :: "env \<Rightarrow> nat \<Rightarrow> bytes option" where
  "datagram E k = (case snd (inbound E k) of Datagram p \<Rightarrow> Some p | ReadError e \<Rightarrow> None)"

text \<open>
  Counting from the first event not yet delivered in \<open>w\<close>: event \<open>j\<close> is in time when it
  arrives no later than \<open>defaultDiscoverTime\<close> after the previous one (after the time of
  \<open>w\<close> for the first, or when the previous one arrived before that time).
\<close>

definition inTime :: "env \<Rightarrow> world \<Rightarrow> nat \<Rightarrow> bool" where
  "inTime E w j =
    (arrival E (received w + j) \<le>
       (case j of
          0 \<Rightarrow> clock w
        | Suc i \<Rightarrow> max (clock w) (arrival E (received w + i))) + defaultDiscoverTime E)"

section \<open>An example host and network\<close>

text \<open>
  A Linux host with one interface \<open>eth0\<close>, a discover time of 3 time units, and a small
  wire format for the codec: enough to run the probes on concrete traffic.
\<close>

definition eth0 :: Interface where
  "eth0 = \<lparr>Name = ''eth0'', HardwareAddr = [2, 0, 0, 0, 0, 1]\<rparr>"

definition example_FromBytes4 :: "bytes \<Rightarrow> error + DHCPv4" where
  "example_FromBytes4 b =
    (if length b < 12 then Inl (Error ''buffer too short'')
     else Inr \<lparr>OpCode = b ! 0, HWType = ucast (b ! 1), TransactionID = take 4 (drop 2 b),
               ClientHWAddr = take 6 (drop 6 b),
               Options = (if 12 < length b then [OptionDHCPMessageType \<mapsto> [b ! 12]]
                          else Map.empty)\<rparr>)"

definition example_FromBytes6 :: "bytes \<Rightarrow> error + DHCPv6" where
  "example_FromBytes6 b =
    (if length b < 4 then Inl (Error ''buffer too short'')
     else Inr \<lparr>Type = b ! 0,
               GetInnerMessage =
                 (if b ! 0 = 12 \<or> b ! 0 = 13 then Inl (Error ''no relay message found'')
                  else Inr \<lparr>MessageType = b ! 0, TransactionID6 = take 3 (drop 1 b),
                            ClientID = (if 4 < length b then Some (drop 4 b) else None)\<rparr>)\<rparr>)"

definition example_env :: "(nat \<Rightarrow> nat \<times> inbound_event) \<Rightarrow> env" where
  "example_env net = \<lparr>
     GOOS = ''linux'',
     Hostname = ''host'',
     InterfaceByName =
       (\<lambda>n. if n = ''eth0'' then Inr eth0 else Inl (Error ''no such network interface'')),
     getIfaceIPv4 = (\<lambda>i. [[192, 168, 1, 10]]),
     getIfaceIPv6 = (\<lambda>i. [[254, 128, 0, 0, 0, 0, 0, 0, 0, 0, 0, 0, 0, 0, 0, 1]]),
     IPString = (\<lambda>ip. if length ip = 4 then ''192.168.1.10'' else ''fe80::1''),
     JoinHostPort =
       (\<lambda>h p. if CHR '':'' \<in> set h then ''['' @ h @ '']:'' @ p else h @ '':'' @ p),
     ResolveUDPAddr =
       (\<lambda>n a. if a = ''192.168.1.10:68'' then Inr \<lparr>IP = [192, 168, 1, 10], Port = 68\<rparr>
              else if a = ''255.255.255.255:67''
              then Inr \<lparr>IP = [255, 255, 255, 255], Port = 67\<rparr>
              else if a = ''[fe80::1]:546''
              then Inr \<lparr>IP = [254, 128, 0, 0, 0, 0, 0, 0, 0, 0, 0, 0, 0, 0, 0, 1], Port = 546\<rparr>
              else if a = ''[ff02::1:2]:547''
              then Inr \<lparr>IP = [255, 2, 0, 0, 0, 0, 0, 0, 0, 0, 0, 0, 0, 1, 0, 2], Port = 547\<rparr>
              else Inl (Error ''missing port in address'')),
     To4 = (\<lambda>ip. if length ip = 4 then ip else []),
     To16 = (\<lambda>ip. if length ip = 16 then ip else []),
     IPEqual = (\<lambda>a b. a = b),
     NewDiscovery =
       (\<lambda>hw. Inr \<lparr>OpCode = 1, HWType = 1, TransactionID = [9, 9, 9, 9], ClientHWAddr = hw,
                   Options = [OptionDHCPMessageType \<mapsto> [1]]\<rparr>),
     SolicitIDs = (\<lambda>hw. Inr ([7, 7, 7], hw)),
     ToBytes4 = (\<lambda>m. OpCode m # ucast (HWType m) # TransactionID m @ ClientHWAddr m),
     ToBytes6 = (\<lambda>m. MessageType m # TransactionID6 m @ (case ClientID m of None \<Rightarrow> [] | Some d \<Rightarrow> d)),
     FromBytes4 = example_FromBytes4,
     FromBytes6 = example_FromBytes6,
     NewRawUDPConn = (\<lambda>n p. (True, None)),
     NewIPv6UDPConn = (\<lambda>n p. (True, None)),
     WriteToErr = (\<lambda>b a. None),
     inbound = net,
     isTimeout = (\<lambda>e. e = Some ErrDeadlineExceeded),
     defaultDiscoverTime = 3\<rparr>"

definition w0 :: world where
  "w0 = \<lparr>clock = 0, deadline = None, received = 0, trace = []\<rparr>"

text \<open>Nothing arrives within any deadline the probes set.\<close>

definition silence :: "nat \<times> inbound_event" where
  "silence = (1000, Datagram [])"

text \<open>A three-byte datagram at time 2, then silence.\<close>

definition net_noise :: "nat \<Rightarrow> nat \<times> inbound_event" where
  "net_noise k = (if k = 0 then (2, Datagram [1, 2, 3]) else silence)"

text \<open>
  The same datagram at time 2, then at time 4 a reply to the request of \<open>example_env\<close>:
  a DHCPv4 boot reply, respectively a DHCPv6 ADVERTISE.
\<close>

definition net_offer4 :: "nat \<Rightarrow> nat \<times> inbound_event" where
  "net_offer4 k =
    (if k = 0 then (2, Datagram [1, 2, 3])
     else if k = 1 then (4, Datagram [2, 1, 9, 9, 9, 9, 2, 0, 0, 0, 0, 1, 2])
     else silence)"

definition net_advertise6 :: "nat \<Rightarrow> nat \<times> inbound_event" where
  "net_advertise6 k =
    (if k = 0 then (2, Datagram [1, 2, 3])
     else if k = 1 then (4, Datagram [2, 7, 7, 7, 2, 0, 0, 0, 0, 1])
     else silence)"

text \<open>A DHCPv6 ADVERTISE with the right transaction id and no client identifier, at time 1.\<close>

definition net_advertise6_no_cid :: "nat \<Rightarrow> nat \<times> inbound_event" where
  "net_advertise6_no_cid k = (if k = 0 then (1, Datagram [2, 7, 7, 7]) else silence)"

text \<open>A DHCPv6 relay envelope without an inner message, at time 1.\<close>

definition net_relay6 :: "nat \<Rightarrow> nat \<times> inbound_event" where
  "net_relay6 k = (if k = 0 then (1, Datagram [12, 0, 0, 0]) else silence)"

text \<open>A flood: every inbound event is the same malformed datagram, already there at time 0.\<close>

definition net_flood :: "nat \<Rightarrow> nat \<times> inbound_event" where
  "net_flood k = (0, Datagram [1, 2, 3])"

text \<open>A transport error at time 1.\<close>

definition net_error :: "nat \<Rightarrow> nat \<times> inbound_event" where
  "net_error k = (if k = 0 then (1, ReadError (Error ''network is down'')) else silence)"

text \<open>
  What the two probes prepare on this host for \<open>eth0\<close>: the DISCOVER and the SOLICIT
  they send, and where they send them.
\<close>

definition example_req4 :: DHCPv4 where
  "example_req4 = \<lparr>OpCode = 1, HWType = 1, TransactionID = [9, 9, 9, 9],
     ClientHWAddr = [2, 0, 0, 0, 0, 1],
     Options = Update (OptHostName ''host'')
                 (Update (OptClientIdentifier [2, 0, 0, 0, 0, 1])
                    [OptionDHCPMessageType \<mapsto> [1]])\<rparr>"

definition example_dst4 :: UDPAddr where
  "example_dst4 = \<lparr>IP = [255, 255, 255, 255], Port = 67\<rparr>"

definition example_req6 :: Message6 where
  "example_req6 = \<lparr>MessageType = 1, TransactionID6 = [7, 7, 7],
     ClientID = Some [2, 0, 0, 0, 0, 1]\<rparr>"

definition example_dst6 :: UDPAddr where
  "example_dst6 = \<lparr>IP = [255, 2, 0, 0, 0, 0, 0, 0, 0, 0, 0, 0, 0, 1, 0, 2], Port = 547\<rparr>"

text \<open>A world at time 2 in which the first inbound event has been delivered.\<close>

definition w1 :: world where
  "w1 = \<lparr>clock = 2, deadline = Some 3, received = 1, trace = []\<rparr>"

section \<open>Each receive loop, iteration by iteration\<close>

subsection \<open>One read with its deadline\<close>

lemma readOnce_trace:
  "trace (snd (readOnce E sz w)) =
     trace w @ [EvSetReadDeadline (clock w + defaultDiscoverTime E),
                EvReadFrom (fst (fst (readOnce E sz w))) (snd (fst (readOnce E sz w)))]"
  by (simp add: readOnce_def ReadFrom_def SetReadDeadline_def log_event_def Let_def
           split: inbound_event.split)

lemma readOnce_clock_upper:
  "clock (snd (readOnce E sz w)) \<le> clock w + defaultDiscoverTime E"
  by (simp add: readOnce_def ReadFrom_def SetReadDeadline_def log_event_def Let_def
           split: inbound_event.split)

lemma readOnce_datagram:
  assumes "datagram E (received w) = Some p"
    and "arrival E (received w) \<le> clock w + defaultDiscoverTime E"
  shows "fst (readOnce E sz w) = (take sz p, None)"
    and "clock (snd (readOnce E sz w)) = max (clock w) (arrival E (received w))"
    and "received (snd (readOnce E sz w)) = received w + 1"
  using assms
  by (simp_all add: readOnce_def ReadFrom_def SetReadDeadline_def log_event_def Let_def
        datagram_def arrival_def split: inbound_event.splits)

subsection \<open>One iteration of the DHCPv4 loop\<close>

lemma recvLoopV4_timeout:
  assumes "isTimeout E (snd (fst (readOnce E 1500 w)))"
  shows "recvLoopV4 E iface req w = Some (Return False None, snd (readOnce E 1500 w))"
  using assms by (subst recvLoopV4.simps) (simp add: Let_def)

lemma recvLoopV4_read_error:
  assumes "\<not> isTimeout E (snd (fst (readOnce E 1500 w)))"
    and "snd (fst (readOnce E 1500 w)) \<noteq> None"
  shows "recvLoopV4 E iface req w =
    Some (Return False (Some (Errorf ''couldn't receive packet: %w''
            (snd (fst (readOnce E 1500 w))))), snd (readOnce E 1500 w))"
  using assms by (subst recvLoopV4.simps) (simp add: Let_def)

lemma recvLoopV4_undecodable:
  assumes "fst (readOnce E 1500 w) = (b, None)" and "\<not> isTimeout E None"
    and "FromBytes4 E b = Inl e"
  shows "recvLoopV4 E iface req w = recvLoopV4 E iface req (snd (readOnce E 1500 w))"
  using assms by (subst recvLoopV4.simps) (simp add: Let_def)

lemma recvLoopV4_decoded:
  assumes "fst (readOnce E 1500 w) = (b, None)" and "\<not> isTimeout E None"
    and "FromBytes4 E b = Inr response"
  shows "recvLoopV4 E iface req w =
    (if matchesV4 iface req response then Some (Return True None, snd (readOnce E 1500 w))
     else recvLoopV4 E iface req (snd (readOnce E 1500 w)))"
  using assms by (subst recvLoopV4.simps) (simp add: Let_def)

text \<open>Induction over the iterations of a loop that returns.\<close>

lemma recvLoopV4_induct [consumes 1, case_names timeout read_error accept undecodable mismatch]:
  assumes run: "recvLoopV4 E iface req w = Some (out, w')"
    and timeout: "\<And>w b err. fst (readOnce E 1500 w) = (b, err) \<Longrightarrow> snd (readOnce E 1500 w) = w' \<Longrightarrow>
        isTimeout E err \<Longrightarrow> out = Return False None \<Longrightarrow> P w"
    and read_error: "\<And>w b err. fst (readOnce E 1500 w) = (b, err) \<Longrightarrow> snd (readOnce E 1500 w) = w' \<Longrightarrow>
        \<not> isTimeout E err \<Longrightarrow> err \<noteq> None \<Longrightarrow>
        out = Return False (Some (Errorf ''couldn't receive packet: %w'' err)) \<Longrightarrow> P w"
    and accept: "\<And>w b response. fst (readOnce E 1500 w) = (b, None) \<Longrightarrow>
        snd (readOnce E 1500 w) = w' \<Longrightarrow> \<not> isTimeout E None \<Longrightarrow>
        FromBytes4 E b = Inr response \<Longrightarrow> matchesV4 iface req response \<Longrightarrow>
        out = Return True None \<Longrightarrow> P w"
    and undecodable: "\<And>w b e. fst (readOnce E 1500 w) = (b, None) \<Longrightarrow> \<not> isTimeout E None \<Longrightarrow>
        FromBytes4 E b = Inl e \<Longrightarrow> P (snd (readOnce E 1500 w)) \<Longrightarrow> P w"
    and mismatch: "\<And>w b response. fst (readOnce E 1500 w) = (b, None) \<Longrightarrow> \<not> isTimeout E None \<Longrightarrow>
        FromBytes4 E b = Inr response \<Longrightarrow> \<not> matchesV4 iface req response \<Longrightarrow>
        P (snd (readOnce E 1500 w)) \<Longrightarrow> P w"
  shows "P w"
proof -
  let ?Q = "\<lambda>E0 iface0 req0 w y.
    E0 = E \<longrightarrow> iface0 = iface \<longrightarrow> req0 = req \<longrightarrow> y = (out, w') \<longrightarrow> P w"
  have "?Q E iface req w (out, w')"
  proof (rule recvLoopV4.raw_induct[where P = ?Q, OF _ run])
    fix f E0 iface0 req0 w y
    assume IH: "\<And>E0 iface0 req0 w y. f E0 iface0 req0 w = Some y \<Longrightarrow> ?Q E0 iface0 req0 w y"
      and body0: "(let rd = readOnce E0 1500 w;
         b = fst (fst rd); err = snd (fst rd); w2 = snd rd
       in if isTimeout E0 err then Some (Return False None, w2)
        else if err \<noteq> None
        then Some (Return False (Some (Errorf ''couldn't receive packet: %w'' err)), w2)
        else (case FromBytes4 E0 b of
                Inl err \<Rightarrow> f E0 iface0 req0 w2
              | Inr response \<Rightarrow>
                  if \<not> matchesV4 iface0 req0 response
                  then f E0 iface0 req0 w2
                  else Some (Return True None, w2))) = Some y"
    show "?Q E0 iface0 req0 w y"
    proof (intro impI)
      assume eqs: "E0 = E" "iface0 = iface" "req0 = req" "y = (out, w')"
      obtain b err where rd: "fst (readOnce E 1500 w) = (b, err)"
        by (cases "fst (readOnce E 1500 w)")
      note body = body0[unfolded eqs Let_def rd fst_conv snd_conv]
      show "P w"
      proof (cases "isTimeout E err")
        case True
        with body rd show ?thesis by (intro timeout[OF rd]) auto
      next
        case nt: False
        show ?thesis
        proof (cases "err = None")
          case False
          with body rd nt show ?thesis by (intro read_error[OF rd]) auto
        next
          case en: True
          show ?thesis
          proof (cases "FromBytes4 E b")
            case (Inl e)
            with body nt en have "f E iface req (snd (readOnce E 1500 w)) = Some (out, w')"
              by simp
            then have "P (snd (readOnce E 1500 w))" using IH by blast
            then show ?thesis using undecodable rd nt en Inl by blast
          next
            case (Inr response)
            show ?thesis
            proof (cases "matchesV4 iface req response")
              case True
              with body nt en Inr show ?thesis
                using accept[of w b response] rd by auto
            next
              case False
              with body nt en Inr
              have "f E iface req (snd (readOnce E 1500 w)) = Some (out, w')" by simp
              then have "P (snd (readOnce E 1500 w))" using IH by blast
              then show ?thesis using mismatch rd nt en Inr False by blast
            qed
          qed
        qed
      qed
    qed
  qed
  then show ?thesis by simp
qed

subsection \<open>One iteration of the DHCPv6 loop\<close>

lemma recvLoopV6_timeout:
  assumes "isTimeout E (snd (fst (readOnce E 4096 w)))"
  shows "recvLoopV6 E req w = Some (Return False None, snd (readOnce E 4096 w))"
  using assms by (subst recvLoopV6.simps) (simp add: Let_def)

lemma recvLoopV6_read_error:
  assumes "\<not> isTimeout E (snd (fst (readOnce E 4096 w)))"
    and "snd (fst (readOnce E 4096 w)) \<noteq> None"
  shows "recvLoopV6 E req w =
    Some (Return False (Some (Errorf ''couldn't receive packet: %w''
            (snd (fst (readOnce E 4096 w))))), snd (readOnce E 4096 w))"
  using assms by (subst recvLoopV6.simps) (simp add: Let_def)

lemma recvLoopV6_undecodable:
  assumes "fst (readOnce E 4096 w) = (b, None)" and "\<not> isTimeout E None"
    and "FromBytes6 E b = Inl e"
  shows "recvLoopV6 E req w = recvLoopV6 E req (snd (readOnce E 4096 w))"
  using assms by (subst recvLoopV6.simps) (simp add: Let_def)

lemma recvLoopV6_no_inner:
  assumes "fst (readOnce E 4096 w) = (b, None)" and "\<not> isTimeout E None"
    and "FromBytes6 E b = Inr resp" and "GetInnerMessage resp = Inl e"
  shows "recvLoopV6 E req w = recvLoopV6 E req (snd (readOnce E 4096 w))"
  using assms by (subst recvLoopV6.simps) (simp add: Let_def)

lemma recvLoopV6_decoded:
  assumes "fst (readOnce E 4096 w) = (b, None)" and "\<not> isTimeout E None"
    and "FromBytes6 E b = Inr resp" and "GetInnerMessage resp = Inr msg"
  shows "recvLoopV6 E req w =
    (case matchesV6 req resp msg of
       None \<Rightarrow> Some (Panic, snd (readOnce E 4096 w))
     | Some ok \<Rightarrow> if ok then Some (Return True None, snd (readOnce E 4096 w))
                  else recvLoopV6 E req (snd (readOnce E 4096 w)))"
  using assms by (subst recvLoopV6.simps) (simp add: Let_def)

lemma recvLoopV6_induct [consumes 1,
    case_names timeout read_error panic accept undecodable no_inner mismatch]:
  assumes run: "recvLoopV6 E req w = Some (out, w')"
    and timeout: "\<And>w b err. fst (readOnce E 4096 w) = (b, err) \<Longrightarrow> snd (readOnce E 4096 w) = w' \<Longrightarrow>
        isTimeout E err \<Longrightarrow> out = Return False None \<Longrightarrow> P w"
    and read_error: "\<And>w b err. fst (readOnce E 4096 w) = (b, err) \<Longrightarrow> snd (readOnce E 4096 w) = w' \<Longrightarrow>
        \<not> isTimeout E err \<Longrightarrow> err \<noteq> None \<Longrightarrow>
        out = Return False (Some (Errorf ''couldn't receive packet: %w'' err)) \<Longrightarrow> P w"
    and panic: "\<And>w b resp msg. fst (readOnce E 4096 w) = (b, None) \<Longrightarrow>
        snd (readOnce E 4096 w) = w' \<Longrightarrow> \<not> isTimeout E None \<Longrightarrow>
        FromBytes6 E b = Inr resp \<Longrightarrow> GetInnerMessage resp = Inr msg \<Longrightarrow>
        matchesV6 req resp msg = None \<Longrightarrow> out = Panic \<Longrightarrow> P w"
    and accept: "\<And>w b resp msg. fst (readOnce E 4096 w) = (b, None) \<Longrightarrow>
        snd (readOnce E 4096 w) = w' \<Longrightarrow> \<not> isTimeout E None \<Longrightarrow>
        FromBytes6 E b = Inr resp \<Longrightarrow> GetInnerMessage resp = Inr msg \<Longrightarrow>
        matchesV6 req resp msg = Some True \<Longrightarrow> out = Return True None \<Longrightarrow> P w"
    and undecodable: "\<And>w b e. fst (readOnce E 4096 w) = (b, None) \<Longrightarrow> \<not> isTimeout E None \<Longrightarrow>
        FromBytes6 E b = Inl e \<Longrightarrow> P (snd (readOnce E 4096 w)) \<Longrightarrow> P w"
    and no_inner: "\<And>w b resp e. fst (readOnce E 4096 w) = (b, None) \<Longrightarrow> \<not> isTimeout E None \<Longrightarrow>
        FromBytes6 E b = Inr resp \<Longrightarrow> GetInnerMessage resp = Inl e \<Longrightarrow>
        P (snd (readOnce E 4096 w)) \<Longrightarrow> P w"
    and mismatch: "\<And>w b resp msg. fst (readOnce E 4096 w) = (b, None) \<Longrightarrow> \<not> isTimeout E None \<Longrightarrow>
        FromBytes6 E b = Inr resp \<Longrightarrow> GetInnerMessage resp = Inr msg \<Longrightarrow>
        matchesV6 req resp msg = Some False \<Longrightarrow>
        P (snd (readOnce E 4096 w)) \<Longrightarrow> P w"
  shows "P w"
proof -
  let ?Q = "\<lambda>E0 req0 w y. E0 = E \<longrightarrow> req0 = req \<longrightarrow> y = (out, w') \<longrightarrow> P w"
  have "?Q E req w (out, w')"
  proof (rule recvLoopV6.raw_induct[where P = ?Q, OF _ run])
    fix f E0 req0 w y
    assume IH: "\<And>E0 req0 w y. f E0 req0 w = Some y \<Longrightarrow> ?Q E0 req0 w y"
      and body0: "(let rd = readOnce E0 4096 w;
         b = fst (fst rd); err = snd (fst rd); w2 = snd rd
       in if isTimeout E0 err then Some (Return False None, w2)
        else if err \<noteq> None
        then Some (Return False (Some (Errorf ''couldn't receive packet: %w'' err)), w2)
        else (case FromBytes6 E0 b of
                Inl err \<Rightarrow> f E0 req0 w2
              | Inr resp \<Rightarrow>
                 (case GetInnerMessage resp of
                    Inl err \<Rightarrow> f E0 req0 w2
                  | Inr msg \<Rightarrow>
                     (case matchesV6 req0 resp msg of
                        None \<Rightarrow> Some (Panic, w2)
                      | Some ok \<Rightarrow>
                          if ok then Some (Return True None, w2)
                          else f E0 req0 w2)))) = Some y"
    show "?Q E0 req0 w y"
    proof (intro impI)
      assume eqs: "E0 = E" "req0 = req" "y = (out, w')"
      obtain b err where rd: "fst (readOnce E 4096 w) = (b, err)"
        by (cases "fst (readOnce E 4096 w)")
      note body = body0[unfolded eqs Let_def rd fst_conv snd_conv]
      let ?w2 = "snd (readOnce E 4096 w)"
      have cont: "P ?w2" if "f E req ?w2 = Some (out, w')"
        using that IH by blast
      show "P w"
      proof (cases "isTimeout E err")
        case True
        with body have "out = Return False None" "?w2 = w'" by simp_all
        then show ?thesis using timeout[OF rd _ True] by blast
      next
        case nt: False
        show ?thesis
        proof (cases "err = None")
          case False
          with body nt
          have "out = Return False (Some (Errorf ''couldn't receive packet: %w'' err))"
            "?w2 = w'" by simp_all
          then show ?thesis using read_error[OF rd _ nt False] by blast
        next
          case en: True
          note rd' = rd[unfolded en]
          note nt' = nt[unfolded en]
          show ?thesis
          proof (cases "FromBytes6 E b")
            case (Inl e)
            with body nt en have "f E req ?w2 = Some (out, w')" by simp
            then have "P ?w2" by (rule cont)
            then show ?thesis by (rule undecodable[OF rd' nt' Inl])
          next
            case (Inr resp)
            show ?thesis
            proof (cases "GetInnerMessage resp")
              case inl: (Inl e)
              with body nt en Inr have "f E req ?w2 = Some (out, w')" by simp
              then have "P ?w2" by (rule cont)
              then show ?thesis by (rule no_inner[OF rd' nt' Inr inl])
            next
              case inr: (Inr msg)
              show ?thesis
              proof (cases "matchesV6 req resp msg")
                case None
                with body nt en Inr inr have "out = Panic" "?w2 = w'" by simp_all
                then show ?thesis using panic[OF rd' _ nt' Inr inr None] by blast
              next
                case (Some ok)
                show ?thesis
                proof (cases ok)
                  case True
                  with body nt en Inr inr Some have "out = Return True None" "?w2 = w'"
                    by simp_all
                  moreover have "matchesV6 req resp msg = Some True" using Some True by simp
                  ultimately show ?thesis
                    using accept[OF rd' _ nt' Inr inr] by blast
                next
                  case False
                  with body nt en Inr inr Some have "f E req ?w2 = Some (out, w')" by simp
                  then have "P ?w2" by (rule cont)
                  moreover have "matchesV6 req resp msg = Some False" using Some False by simp
                  ultimately show ?thesis
                    using mismatch[OF rd' nt' Inr inr] by blast
                qed
              qed
            qed
          qed
        qed
      qed
    qed
  qed
  then show ?thesis by simp
qed

subsection \<open>The log and the clock over the iterations\<close>

text \<open>
  Every iteration appends one deadline and one read to the log, and ends no later than
  \<open>defaultDiscoverTime\<close> after it began.
\<close>

lemma loop_log_last:
  assumes "snd (readOnce E sz w) = w'"
  shows "\<exists>evs. trace w' = trace w @ evs \<and>
           (\<forall>e \<in> set evs. isSetReadDeadline e \<or> isReadFrom e) \<and>
           deadlinesSet evs = reads evs \<and> 0 < reads evs \<and>
           clock w' \<le> clock w + reads evs * defaultDiscoverTime E"
proof -
  let ?evs = "[EvSetReadDeadline (clock w + defaultDiscoverTime E),
               EvReadFrom (fst (fst (readOnce E sz w))) (snd (fst (readOnce E sz w)))]"
  have "trace w' = trace w @ ?evs" using assms readOnce_trace[of E sz w] by simp
  moreover have "\<forall>e \<in> set ?evs. isSetReadDeadline e \<or> isReadFrom e" by simp
  moreover have "deadlinesSet ?evs = reads ?evs" "0 < reads ?evs"
    by (simp_all add: deadlinesSet_def reads_def)
  moreover have "clock w' \<le> clock w + reads ?evs * defaultDiscoverTime E"
    using assms readOnce_clock_upper[of E sz w] by (simp add: reads_def)
  ultimately show ?thesis by blast
qed

lemma loop_log_more:
  assumes "\<exists>evs. trace w' = trace (snd (readOnce E sz w)) @ evs \<and>
           (\<forall>e \<in> set evs. isSetReadDeadline e \<or> isReadFrom e) \<and>
           deadlinesSet evs = reads evs \<and> 0 < reads evs \<and>
           clock w' \<le> clock (snd (readOnce E sz w)) + reads evs * defaultDiscoverTime E"
  shows "\<exists>evs. trace w' = trace w @ evs \<and>
           (\<forall>e \<in> set evs. isSetReadDeadline e \<or> isReadFrom e) \<and>
           deadlinesSet evs = reads evs \<and> 0 < reads evs \<and>
           clock w' \<le> clock w + reads evs * defaultDiscoverTime E"
proof -
  from assms obtain evs where evs: "trace w' = trace (snd (readOnce E sz w)) @ evs"
      "\<forall>e \<in> set evs. isSetReadDeadline e \<or> isReadFrom e"
      "deadlinesSet evs = reads evs"
      "clock w' \<le> clock (snd (readOnce E sz w)) + reads evs * defaultDiscoverTime E"
    by blast
  let ?evs = "[EvSetReadDeadline (clock w + defaultDiscoverTime E),
               EvReadFrom (fst (fst (readOnce E sz w))) (snd (fst (readOnce E sz w)))] @ evs"
  have "trace w' = trace w @ ?evs" using evs(1) readOnce_trace[of E sz w] by simp
  moreover have "\<forall>e \<in> set ?evs. isSetReadDeadline e \<or> isReadFrom e" using evs(2) by simp
  moreover have "deadlinesSet ?evs = reads ?evs" "0 < reads ?evs"
    using evs(3) by (simp_all add: deadlinesSet_def reads_def)
  moreover have "clock w' \<le> clock w + reads ?evs * defaultDiscoverTime E"
    using evs(4) readOnce_clock_upper[of E sz w] by (simp add: reads_def)
  ultimately show ?thesis by blast
qed

lemma recvLoopV4_log:
  assumes "recvLoopV4 E iface req w = Some (out, w')"
  shows "\<exists>evs. trace w' = trace w @ evs \<and>
           (\<forall>e \<in> set evs. isSetReadDeadline e \<or> isReadFrom e) \<and>
           deadlinesSet evs = reads evs \<and> 0 < reads evs \<and>
           clock w' \<le> clock w + reads evs * defaultDiscoverTime E"
  using assms
proof (induction rule: recvLoopV4_induct)
  case (timeout w b err) then show ?case by (intro loop_log_last)
next
  case (read_error w b err) then show ?case by (intro loop_log_last)
next
  case (accept w b response) then show ?case by (intro loop_log_last)
next
  case (undecodable w b e) then show ?case by (intro loop_log_more)
next
  case (mismatch w b response) then show ?case by (intro loop_log_more)
qed

lemma recvLoopV6_log:
  assumes "recvLoopV6 E req w = Some (out, w')"
  shows "\<exists>evs. trace w' = trace w @ evs \<and>
           (\<forall>e \<in> set evs. isSetReadDeadline e \<or> isReadFrom e) \<and>
           deadlinesSet evs = reads evs \<and> 0 < reads evs \<and>
           clock w' \<le> clock w + reads evs * defaultDiscoverTime E"
  using assms
proof (induction rule: recvLoopV6_induct)
  case (timeout w b err) then show ?case by (intro loop_log_last)
next
  case (read_error w b err) then show ?case by (intro loop_log_last)
next
  case (panic w b resp msg) then show ?case by (intro loop_log_last)
next
  case (accept w b resp msg) then show ?case by (intro loop_log_last)
next
  case (undecodable w b e) then show ?case by (intro loop_log_more)
next
  case (no_inner w b resp e) then show ?case by (intro loop_log_more)
next
  case (mismatch w b resp msg) then show ?case by (intro loop_log_more)
qed

text \<open>What the last read of a loop that returns gave, and what the loop made of it.\<close>

lemma last_read_last:
  assumes "fst (readOnce E sz w) = (b, err)" and "snd (readOnce E sz w) = w'" and "Q b err"
  shows "\<exists>evs b err. trace w' = trace w @ evs @ [EvReadFrom b err] \<and> Q b err"
  using assms readOnce_trace[of E sz w]
  by (intro exI[of _ "[EvSetReadDeadline (clock w + defaultDiscoverTime E)]"] exI[of _ b]
        exI[of _ err]) simp

lemma last_read_more:
  assumes "\<exists>evs b err. trace w' = trace (snd (readOnce E sz w)) @ evs @ [EvReadFrom b err] \<and>
             Q b err"
  shows "\<exists>evs b err. trace w' = trace w @ evs @ [EvReadFrom b err] \<and> Q b err"
proof -
  from assms obtain evs b err where
    "trace w' = trace (snd (readOnce E sz w)) @ evs @ [EvReadFrom b err]" and q: "Q b err"
    by blast
  then have "trace w' = trace w @ ([EvSetReadDeadline (clock w + defaultDiscoverTime E),
      EvReadFrom (fst (fst (readOnce E sz w))) (snd (fst (readOnce E sz w)))] @ evs) @
      [EvReadFrom b err]"
    using readOnce_trace[of E sz w] by simp
  with q show ?thesis by blast
qed

lemma recvLoopV4_last_read:
  assumes "recvLoopV4 E iface req w = Some (out, w')"
  shows "\<exists>evs b err. trace w' = trace w @ evs @ [EvReadFrom b err] \<and>
      (isTimeout E err \<and> out = Return False None \<or>
       \<not> isTimeout E err \<and> err \<noteq> None \<and>
         out = Return False (Some (Errorf ''couldn't receive packet: %w'' err)) \<or>
       \<not> isTimeout E err \<and> err = None \<and> out = Return True None \<and>
         (\<exists>response. FromBytes4 E b = Inr response \<and> matchesV4 iface req response))"
  using assms
proof (induction rule: recvLoopV4_induct)
  case (timeout w b err) then show ?case by (intro last_read_last) auto
next
  case (read_error w b err) then show ?case by (intro last_read_last) auto
next
  case (accept w b response) then show ?case by (intro last_read_last) auto
next
  case (undecodable w b e) then show ?case by (intro last_read_more)
next
  case (mismatch w b response) then show ?case by (intro last_read_more)
qed

lemma recvLoopV6_last_read:
  assumes "recvLoopV6 E req w = Some (out, w')"
  shows "\<exists>evs b err. trace w' = trace w @ evs @ [EvReadFrom b err] \<and>
      (isTimeout E err \<and> out = Return False None \<or>
       \<not> isTimeout E err \<and> err \<noteq> None \<and>
         out = Return False (Some (Errorf ''couldn't receive packet: %w'' err)) \<or>
       \<not> isTimeout E err \<and> err = None \<and>
         (\<exists>resp msg. FromBytes6 E b = Inr resp \<and> GetInnerMessage resp = Inr msg \<and>
            (matchesV6 req resp msg = Some True \<and> out = Return True None \<or>
             matchesV6 req resp msg = None \<and> out = Panic)))"
  using assms
proof (induction rule: recvLoopV6_induct)
  case (timeout w b err) then show ?case by (intro last_read_last) auto
next
  case (read_error w b err) then show ?case by (intro last_read_last) auto
next
  case (panic w b resp msg) then show ?case by (intro last_read_last) auto
next
  case (accept w b resp msg) then show ?case by (intro last_read_last) auto
next
  case (undecodable w b e) then show ?case by (intro last_read_more)
next
  case (no_inner w b resp e) then show ?case by (intro last_read_more)
next
  case (mismatch w b resp msg) then show ?case by (intro last_read_more)
qed

section \<open>Each probe around its loop\<close>

subsection \<open>After the preparation\<close>

lemma listenV4_cases [consumes 1, case_names listen_failed nil_conn send_failed loop]:
  assumes "listenV4 E ifaceName iface req dstAddr w = Some (out, w')"
  obtains
    (listen_failed) c e where "NewRawUDPConn E ifaceName 68 = (c, Some e)"
      "out = Return False (Some (Errorf ''couldn't listen on :68: %w'' (Some e)))"
      "w' = log_event EvListen w"
  | (nil_conn) "NewRawUDPConn E ifaceName 68 = (False, None)" "out = Panic"
      "w' = log_event EvListen w"
  | (send_failed) e where "NewRawUDPConn E ifaceName 68 = (True, None)"
      "WriteToErr E (ToBytes4 E req) dstAddr = Some e"
      "out = Return False (Some (Errorf ''couldn't send a packet to %s: %w'' (Some e)))"
      "w' = Close (log_event (EvWriteTo (ToBytes4 E req) dstAddr) (log_event EvListen w))"
  | (loop) w'' where "NewRawUDPConn E ifaceName 68 = (True, None)"
      "WriteToErr E (ToBytes4 E req) dstAddr = None"
      "recvLoopV4 E iface req
         (log_event (EvWriteTo (ToBytes4 E req) dstAddr) (log_event EvListen w)) = Some (out, w'')"
      "w' = Close w''"
proof (cases "NewRawUDPConn E ifaceName 68")
  case (Pair c err)
  show ?thesis
  proof (cases err)
    case (Some e)
    with Pair assms show ?thesis
      by (intro listen_failed[of c e]) (simp_all add: listenV4_def Let_def)
  next
    case None
    show ?thesis
    proof (cases c)
      case False
      with Pair None assms show ?thesis
        by (intro nil_conn) (simp_all add: listenV4_def Let_def)
    next
      case True
      show ?thesis
      proof (cases "WriteToErr E (ToBytes4 E req) dstAddr")
        case (Some e)
        with Pair None True assms show ?thesis
          by (intro send_failed[of e])
             (auto simp add: listenV4_def sendRecvV4_def WriteTo_def deferClose_def Let_def)
      next
        case wn: None
        with Pair None True assms obtain w'' where
          "recvLoopV4 E iface req
             (log_event (EvWriteTo (ToBytes4 E req) dstAddr) (log_event EvListen w)) =
           Some (out, w'')" "w' = Close w''"
          by (auto simp add: listenV4_def sendRecvV4_def WriteTo_def deferClose_def Let_def)
        with Pair None True wn show ?thesis by (intro loop[of w'']) simp_all
      qed
    qed
  qed
qed

lemma listenV6_cases [consumes 1, case_names listen_failed nil_conn send_failed loop]:
  assumes "listenV6 E ifaceName req dstAddr w = Some (out, w')"
  obtains
    (listen_failed) c e where "NewIPv6UDPConn E ifaceName DefaultClientPort = (c, Some e)"
      "out = Return False (Some (Errorf ''dhcpv6: Couldn't listen on :546: %w'' (Some e)))"
      "w' = log_event EvListen w"
  | (nil_conn) "NewIPv6UDPConn E ifaceName DefaultClientPort = (False, None)" "out = Panic"
      "w' = log_event EvListen w"
  | (send_failed) e where "NewIPv6UDPConn E ifaceName DefaultClientPort = (True, None)"
      "WriteToErr E (ToBytes6 E req) dstAddr = Some e"
      "out = Return False (Some (Errorf ''dhcpv6: Couldn't send a packet to %s: %w'' (Some e)))"
      "w' = Close (log_event (EvWriteTo (ToBytes6 E req) dstAddr) (log_event EvListen w))"
  | (loop) w'' where "NewIPv6UDPConn E ifaceName DefaultClientPort = (True, None)"
      "WriteToErr E (ToBytes6 E req) dstAddr = None"
      "recvLoopV6 E req
         (log_event (EvWriteTo (ToBytes6 E req) dstAddr) (log_event EvListen w)) = Some (out, w'')"
      "w' = Close w''"
proof (cases "NewIPv6UDPConn E ifaceName DefaultClientPort")
  case (Pair c err)
  show ?thesis
  proof (cases err)
    case (Some e)
    with Pair assms show ?thesis
      by (intro listen_failed[of c e]) (simp_all add: listenV6_def Let_def)
  next
    case None
    show ?thesis
    proof (cases c)
      case False
      with Pair None assms show ?thesis
        by (intro nil_conn) (simp_all add: listenV6_def Let_def)
    next
      case True
      show ?thesis
      proof (cases "WriteToErr E (ToBytes6 E req) dstAddr")
        case (Some e)
        with Pair None True assms show ?thesis
          by (intro send_failed[of e])
             (auto simp add: listenV6_def sendRecvV6_def WriteTo_def deferClose_def Let_def)
      next
        case wn: None
        with Pair None True assms obtain w'' where
          "recvLoopV6 E req
             (log_event (EvWriteTo (ToBytes6 E req) dstAddr) (log_event EvListen w)) =
           Some (out, w'')" "w' = Close w''"
          by (auto simp add: listenV6_def sendRecvV6_def WriteTo_def deferClose_def Let_def)
        with Pair None True wn show ?thesis by (intro loop[of w'']) simp_all
      qed
    qed
  qed
qed

lemma CheckV4_prepared:
  assumes "prepareV4 E ifaceName = Inr (iface, req, dstAddr)"
  shows "CheckIfOtherDHCPServersPresentV4 E ifaceName w = listenV4 E ifaceName iface req dstAddr w"
  using assms by (simp add: CheckIfOtherDHCPServersPresentV4_def)

lemma CheckV6_prepared:
  assumes "prepareV6 E ifaceName = Inr (req, dstAddr)"
  shows "CheckIfOtherDHCPServersPresentV6 E ifaceName w = listenV6 E ifaceName req dstAddr w"
  using assms by (simp add: CheckIfOtherDHCPServersPresentV6_def)

lemma CheckV4_cases [consumes 1, case_names prepare_failed prepared]:
  assumes "CheckIfOtherDHCPServersPresentV4 E ifaceName w = Some (out, w')"
  obtains (prepare_failed) e where "prepareV4 E ifaceName = Inl e"
      "out = Return False (Some e)" "w' = w"
  | (prepared) iface req dstAddr where "prepareV4 E ifaceName = Inr (iface, req, dstAddr)"
      "listenV4 E ifaceName iface req dstAddr w = Some (out, w')"
  using assms
  by (cases "prepareV4 E ifaceName") (auto simp add: CheckIfOtherDHCPServersPresentV4_def)

lemma CheckV6_cases [consumes 1, case_names prepare_failed prepared]:
  assumes "CheckIfOtherDHCPServersPresentV6 E ifaceName w = Some (out, w')"
  obtains (prepare_failed) e where "prepareV6 E ifaceName = Inl e"
      "out = Return False (Some e)" "w' = w"
  | (prepared) req dstAddr where "prepareV6 E ifaceName = Inr (req, dstAddr)"
      "listenV6 E ifaceName req dstAddr w = Some (out, w')"
  using assms
  by (cases "prepareV6 E ifaceName") (auto simp add: CheckIfOtherDHCPServersPresentV6_def)

lemma listenV4_accepts:
  assumes "NewRawUDPConn E ifaceName 68 = (True, None)"
    and "WriteToErr E (ToBytes4 E req) dstAddr = None"
    and "recvLoopV4 E iface req
           (log_event (EvWriteTo (ToBytes4 E req) dstAddr) (log_event EvListen w)) =
         Some (out, w'')"
  shows "listenV4 E ifaceName iface req dstAddr w = Some (out, Close w'')"
  using assms
  by (simp add: listenV4_def sendRecvV4_def WriteTo_def deferClose_def Let_def)

lemma listenV6_accepts:
  assumes "NewIPv6UDPConn E ifaceName DefaultClientPort = (True, None)"
    and "WriteToErr E (ToBytes6 E req) dstAddr = None"
    and "recvLoopV6 E req
           (log_event (EvWriteTo (ToBytes6 E req) dstAddr) (log_event EvListen w)) =
         Some (out, w'')"
  shows "listenV6 E ifaceName req dstAddr w = Some (out, Close w'')"
  using assms
  by (simp add: listenV6_def sendRecvV6_def WriteTo_def deferClose_def Let_def)

subsection \<open>The log of a whole probe once the bind has succeeded\<close>

lemma listenV4_log:
  assumes "listenV4 E ifaceName iface req dstAddr w = Some (out, w')"
    and "NewRawUDPConn E ifaceName 68 = (True, None)"
  shows "\<exists>evs. trace w' = trace w @ EvListen # evs @ [EvClose] \<and> EvClose \<notin> set evs"
  using assms(1)
proof (cases rule: listenV4_cases)
  case (listen_failed c e)
  with assms(2) show ?thesis by simp
next
  case nil_conn
  with assms(2) show ?thesis by simp
next
  case (send_failed e)
  then show ?thesis
    by (intro exI[of _ "[EvWriteTo (ToBytes4 E req) dstAddr]"]) (simp add: Close_def log_event_def)
next
  case (loop w'')
  from recvLoopV4_log[OF loop(3)] obtain evs where
    evs: "trace w'' = trace w @ [EvListen, EvWriteTo (ToBytes4 E req) dstAddr] @ evs"
      "\<forall>e \<in> set evs. isSetReadDeadline e \<or> isReadFrom e"
    by (auto simp add: log_event_def)
  have "EvClose \<notin> set evs" using evs(2) by auto
  with evs(1) loop(4) show ?thesis
    by (intro exI[of _ "EvWriteTo (ToBytes4 E req) dstAddr # evs"])
       (simp add: Close_def log_event_def)
qed

lemma listenV6_log:
  assumes "listenV6 E ifaceName req dstAddr w = Some (out, w')"
    and "NewIPv6UDPConn E ifaceName DefaultClientPort = (True, None)"
  shows "\<exists>evs. trace w' = trace w @ EvListen # evs @ [EvClose] \<and> EvClose \<notin> set evs"
  using assms(1)
proof (cases rule: listenV6_cases)
  case (listen_failed c e)
  with assms(2) show ?thesis by simp
next
  case nil_conn
  with assms(2) show ?thesis by simp
next
  case (send_failed e)
  then show ?thesis
    by (intro exI[of _ "[EvWriteTo (ToBytes6 E req) dstAddr]"]) (simp add: Close_def log_event_def)
next
  case (loop w'')
  from recvLoopV6_log[OF loop(3)] obtain evs where
    evs: "trace w'' = trace w @ [EvListen, EvWriteTo (ToBytes6 E req) dstAddr] @ evs"
      "\<forall>e \<in> set evs. isSetReadDeadline e \<or> isReadFrom e"
    by (auto simp add: log_event_def)
  have "EvClose \<notin> set evs" using evs(2) by auto
  with evs(1) loop(4) show ?thesis
    by (intro exI[of _ "EvWriteTo (ToBytes6 E req) dstAddr # evs"])
       (simp add: Close_def log_event_def)
qed

subsection \<open>The last read of a probe\<close>

text \<open>
  A probe whose last endpoint call before the close was a read came out of its receive
  loop, and that read is the last read of the loop.
\<close>

lemma append_two_last:
  assumes "xs @ [a, b] = ys @ [c, d]"
  shows "a = c \<and> b = d"
  using arg_cong[OF assms, of rev] by simp

lemma listenV4_last_read:
  assumes "listenV4 E ifaceName iface req dstAddr w = Some (out, w')"
    and "trace w' = trace w @ evs @ [EvReadFrom b err, EvClose]"
  shows "isTimeout E err \<and> out = Return False None \<or>
       \<not> isTimeout E err \<and> err \<noteq> None \<and>
         out = Return False (Some (Errorf ''couldn't receive packet: %w'' err)) \<or>
       \<not> isTimeout E err \<and> err = None \<and> out = Return True None \<and>
         (\<exists>response. FromBytes4 E b = Inr response \<and> matchesV4 iface req response)"
  using assms(1)
proof (cases rule: listenV4_cases)
  case (listen_failed c e)
  with assms(2) show ?thesis by (simp add: log_event_def)
next
  case nil_conn
  with assms(2) show ?thesis by (simp add: log_event_def)
next
  case (send_failed e)
  with assms(2) have "[EvListen] @ [EvWriteTo (ToBytes4 E req) dstAddr, EvClose] =
      evs @ [EvReadFrom b err, EvClose]"
    by (simp add: Close_def log_event_def)
  from append_two_last[OF this] show ?thesis by simp
next
  case (loop w'')
  from recvLoopV4_last_read[OF loop(3)] obtain evs' b' err' where
    tr: "trace w'' = trace w @ [EvListen, EvWriteTo (ToBytes4 E req) dstAddr] @ evs' @
           [EvReadFrom b' err']"
    and cls: "isTimeout E err' \<and> out = Return False None \<or>
       \<not> isTimeout E err' \<and> err' \<noteq> None \<and>
         out = Return False (Some (Errorf ''couldn't receive packet: %w'' err')) \<or>
       \<not> isTimeout E err' \<and> err' = None \<and> out = Return True None \<and>
         (\<exists>response. FromBytes4 E b' = Inr response \<and> matchesV4 iface req response)"
    by (auto simp add: log_event_def)
  from tr loop(4) assms(2)
  have "([EvListen, EvWriteTo (ToBytes4 E req) dstAddr] @ evs') @ [EvReadFrom b' err', EvClose] =
      evs @ [EvReadFrom b err, EvClose]"
    by (simp add: Close_def log_event_def)
  from append_two_last[OF this] have "b' = b" "err' = err" by simp_all
  with cls show ?thesis by simp
qed

lemma listenV6_last_read:
  assumes "listenV6 E ifaceName req dstAddr w = Some (out, w')"
    and "trace w' = trace w @ evs @ [EvReadFrom b err, EvClose]"
  shows "isTimeout E err \<and> out = Return False None \<or>
       \<not> isTimeout E err \<and> err \<noteq> None \<and>
         out = Return False (Some (Errorf ''couldn't receive packet: %w'' err)) \<or>
       \<not> isTimeout E err \<and> err = None \<and>
         (\<exists>resp msg. FromBytes6 E b = Inr resp \<and> GetInnerMessage resp = Inr msg \<and>
            (matchesV6 req resp msg = Some True \<and> out = Return True None \<or>
             matchesV6 req resp msg = None \<and> out = Panic))"
  using assms(1)
proof (cases rule: listenV6_cases)
  case (listen_failed c e)
  with assms(2) show ?thesis by (simp add: log_event_def)
next
  case nil_conn
  with assms(2) show ?thesis by (simp add: log_event_def)
next
  case (send_failed e)
  with assms(2) have "[EvListen] @ [EvWriteTo (ToBytes6 E req) dstAddr, EvClose] =
      evs @ [EvReadFrom b err, EvClose]"
    by (simp add: Close_def log_event_def)
  from append_two_last[OF this] show ?thesis by simp
next
  case (loop w'')
  from recvLoopV6_last_read[OF loop(3)] obtain evs' b' err' where
    tr: "trace w'' = trace w @ [EvListen, EvWriteTo (ToBytes6 E req) dstAddr] @ evs' @
           [EvReadFrom b' err']"
    and cls: "isTimeout E err' \<and> out = Return False None \<or>
       \<not> isTimeout E err' \<and> err' \<noteq> None \<and>
         out = Return False (Some (Errorf ''couldn't receive packet: %w'' err')) \<or>
       \<not> isTimeout E err' \<and> err' = None \<and>
         (\<exists>resp msg. FromBytes6 E b' = Inr resp \<and> GetInnerMessage resp = Inr msg \<and>
            (matchesV6 req resp msg = Some True \<and> out = Return True None \<or>
             matchesV6 req resp msg = None \<and> out = Panic))"
    by (auto simp add: log_event_def)
  from tr loop(4) assms(2)
  have "([EvListen, EvWriteTo (ToBytes6 E req) dstAddr] @ evs') @ [EvReadFrom b' err', EvClose] =
      evs @ [EvReadFrom b err, EvClose]"
    by (simp add: Close_def log_event_def)
  from append_two_last[OF this] have "b' = b" "err' = err" by simp_all
  with cls show ?thesis by simp
qed

lemma CheckV4_last_read:
  assumes "CheckIfOtherDHCPServersPresentV4 E ifaceName w = Some (out, w')"
    and "trace w' = trace w @ evs @ [EvReadFrom b err, EvClose]"
  shows "\<exists>iface req dstAddr. prepareV4 E ifaceName = Inr (iface, req, dstAddr) \<and>
      (isTimeout E err \<and> out = Return False None \<or>
       \<not> isTimeout E err \<and> err \<noteq> None \<and>
         out = Return False (Some (Errorf ''couldn't receive packet: %w'' err)) \<or>
       \<not> isTimeout E err \<and> err = None \<and> out = Return True None \<and>
         (\<exists>response. FromBytes4 E b = Inr response \<and> matchesV4 iface req response))"
  using assms(1)
proof (cases rule: CheckV4_cases)
  case (prepare_failed e)
  with assms(2) show ?thesis by simp
next
  case (prepared iface req dstAddr)
  from listenV4_last_read[OF prepared(2) assms(2)] prepared(1) show ?thesis by blast
qed

lemma CheckV6_last_read:
  assumes "CheckIfOtherDHCPServersPresentV6 E ifaceName w = Some (out, w')"
    and "trace w' = trace w @ evs @ [EvReadFrom b err, EvClose]"
  shows "\<exists>req dstAddr. prepareV6 E ifaceName = Inr (req, dstAddr) \<and>
      (isTimeout E err \<and> out = Return False None \<or>
       \<not> isTimeout E err \<and> err \<noteq> None \<and>
         out = Return False (Some (Errorf ''couldn't receive packet: %w'' err)) \<or>
       \<not> isTimeout E err \<and> err = None \<and>
         (\<exists>resp msg. FromBytes6 E b = Inr resp \<and> GetInnerMessage resp = Inr msg \<and>
            (matchesV6 req resp msg = Some True \<and> out = Return True None \<or>
             matchesV6 req resp msg = None \<and> out = Panic)))"
  using assms(1)
proof (cases rule: CheckV6_cases)
  case (prepare_failed e)
  with assms(2) show ?thesis by simp
next
  case (prepared req dstAddr)
  from listenV6_last_read[OF prepared(2) assms(2)] prepared(1) show ?thesis by blast
qed

lemma listenV4_accept:
  assumes "listenV4 E ifaceName iface req dstAddr w = Some (Return True None, w')"
  shows "\<exists>evs b response. trace w' = trace w @ evs @ [EvReadFrom b None, EvClose] \<and>
           FromBytes4 E b = Inr response \<and> matchesV4 iface req response"
  using assms
proof (cases rule: listenV4_cases)
  case (loop w'')
  from recvLoopV4_last_read[OF loop(3)] obtain evs b response where
    "trace w'' = trace w @ ([EvListen, EvWriteTo (ToBytes4 E req) dstAddr] @ evs) @
        [EvReadFrom b None]"
    "FromBytes4 E b = Inr response" "matchesV4 iface req response"
    by (auto simp add: log_event_def)
  with loop(4) show ?thesis
    by (intro exI[of _ "[EvListen, EvWriteTo (ToBytes4 E req) dstAddr] @ evs"] exI[of _ b]
          exI[of _ response]) (simp add: Close_def log_event_def)
qed simp_all

lemma listenV6_accept:
  assumes "listenV6 E ifaceName req dstAddr w = Some (Return True None, w')"
  shows "\<exists>evs b resp msg. trace w' = trace w @ evs @ [EvReadFrom b None, EvClose] \<and>
           FromBytes6 E b = Inr resp \<and> GetInnerMessage resp = Inr msg \<and>
           matchesV6 req resp msg = Some True"
  using assms
proof (cases rule: listenV6_cases)
  case (loop w'')
  from recvLoopV6_last_read[OF loop(3)] obtain evs b resp msg where
    "trace w'' = trace w @ ([EvListen, EvWriteTo (ToBytes6 E req) dstAddr] @ evs) @
        [EvReadFrom b None]"
    "FromBytes6 E b = Inr resp" "GetInnerMessage resp = Inr msg"
    "matchesV6 req resp msg = Some True"
    by (auto simp add: log_event_def)
  with loop(4) show ?thesis
    by (intro exI[of _ "[EvListen, EvWriteTo (ToBytes6 E req) dstAddr] @ evs"] exI[of _ b]
          exI[of _ resp] exI[of _ msg]) (simp add: Close_def log_event_def)
qed simp_all

subsection \<open>Runs on the example host\<close>

lemma example_prepareV4:
  "prepareV4 (example_env net) ''eth0'' = Inr (eth0, example_req4, example_dst4)"
  by (simp add: prepareV4_def example_env_def eth0_def example_req4_def example_dst4_def
        err_of_def Let_def)

lemma example_prepareV6:
  "prepareV6 (example_env net) ''eth0'' = Inr (example_req6, example_dst6)"
  by (simp add: prepareV6_def example_env_def eth0_def example_req6_def example_dst6_def
        err_of_def Let_def NewSolicit_def MessageTypeSolicit_def)

lemma example_not_timeout_nil: "\<not> isTimeout (example_env net) None"
  by (simp add: example_env_def)

lemma example_run_offer4:
  "CheckIfOtherDHCPServersPresentV4 (example_env net_offer4) ''eth0'' w0 =
     Some (Return True None,
       \<lparr>clock = 4, deadline = Some 5, received = 2,
        trace = [EvListen, EvWriteTo [1, 1, 9, 9, 9, 9, 2, 0, 0, 0, 0, 1] example_dst4,
                 EvSetReadDeadline 3, EvReadFrom [1, 2, 3] None, EvSetReadDeadline 5,
                 EvReadFrom [2, 1, 9, 9, 9, 9, 2, 0, 0, 0, 0, 1, 2] None, EvClose]\<rparr>)"
  by code_simp

lemma example_run_advertise6:
  "CheckIfOtherDHCPServersPresentV6 (example_env net_advertise6) ''eth0'' w0 =
     Some (Return True None,
       \<lparr>clock = 4, deadline = Some 5, received = 2,
        trace = [EvListen, EvWriteTo [1, 7, 7, 7, 2, 0, 0, 0, 0, 1] example_dst6,
                 EvSetReadDeadline 3, EvReadFrom [1, 2, 3] None, EvSetReadDeadline 5,
                 EvReadFrom [2, 7, 7, 7, 2, 0, 0, 0, 0, 1] None, EvClose]\<rparr>)"
  by code_simp

lemma example_run_noise4:
  "CheckIfOtherDHCPServersPresentV4 (example_env net_noise) ''eth0'' w0 =
     Some (Return False None,
       \<lparr>clock = 5, deadline = Some 5, received = 1,
        trace = [EvListen, EvWriteTo [1, 1, 9, 9, 9, 9, 2, 0, 0, 0, 0, 1] example_dst4,
                 EvSetReadDeadline 3, EvReadFrom [1, 2, 3] None, EvSetReadDeadline 5,
                 EvReadFrom [] (Some ErrDeadlineExceeded), EvClose]\<rparr>)"
  by code_simp

lemma example_run_noise6:
  "CheckIfOtherDHCPServersPresentV6 (example_env net_noise) ''eth0'' w0 =
     Some (Return False None,
       \<lparr>clock = 5, deadline = Some 5, received = 1,
        trace = [EvListen, EvWriteTo [1, 7, 7, 7, 2, 0, 0, 0, 0, 1] example_dst6,
                 EvSetReadDeadline 3, EvReadFrom [1, 2, 3] None, EvSetReadDeadline 5,
                 EvReadFrom [] (Some ErrDeadlineExceeded), EvClose]\<rparr>)"
  by code_simp

lemma example_run_error4:
  "CheckIfOtherDHCPServersPresentV4 (example_env net_error) ''eth0'' w0 =
     Some (Return False
        (Some (Errorf ''couldn't receive packet: %w'' (Some (Error ''network is down'')))),
       \<lparr>clock = 1, deadline = Some 3, received = 1,
        trace = [EvListen, EvWriteTo [1, 1, 9, 9, 9, 9, 2, 0, 0, 0, 0, 1] example_dst4,
                 EvSetReadDeadline 3, EvReadFrom [] (Some (Error ''network is down'')),
                 EvClose]\<rparr>)"
  by code_simp

lemma example_run_error6:
  "CheckIfOtherDHCPServersPresentV6 (example_env net_error) ''eth0'' w0 =
     Some (Return False
        (Some (Errorf ''couldn't receive packet: %w'' (Some (Error ''network is down'')))),
       \<lparr>clock = 1, deadline = Some 3, received = 1,
        trace = [EvListen, EvWriteTo [1, 7, 7, 7, 2, 0, 0, 0, 0, 1] example_dst6,
                 EvSetReadDeadline 3, EvReadFrom [] (Some (Error ''network is down'')),
                 EvClose]\<rparr>)"
  by code_simp

lemma example_run_send_error4:
  "CheckIfOtherDHCPServersPresentV4
     ((example_env net_noise)\<lparr>WriteToErr := \<lambda>b a. Some (Error ''network is unreachable'')\<rparr>)
     ''eth0'' w0 =
     Some (Return False
        (Some (Errorf ''couldn't send a packet to %s: %w''
           (Some (Error ''network is unreachable'')))),
       \<lparr>clock = 0, deadline = None, received = 0,
        trace = [EvListen, EvWriteTo [1, 1, 9, 9, 9, 9, 2, 0, 0, 0, 0, 1] example_dst4,
                 EvClose]\<rparr>)"
  by code_simp

lemma example_loop_noise4:
  "recvLoopV4 (example_env net_noise) eth0 example_req4 w0 =
     Some (Return False None,
       \<lparr>clock = 5, deadline = Some 5, received = 1,
        trace = [EvSetReadDeadline 3, EvReadFrom [1, 2, 3] None, EvSetReadDeadline 5,
                 EvReadFrom [] (Some ErrDeadlineExceeded)]\<rparr>)"
  by code_simp

lemma example_loop_noise6:
  "recvLoopV6 (example_env net_noise) example_req6 w0 =
     Some (Return False None,
       \<lparr>clock = 5, deadline = Some 5, received = 1,
        trace = [EvSetReadDeadline 3, EvReadFrom [1, 2, 3] None, EvSetReadDeadline 5,
                 EvReadFrom [] (Some ErrDeadlineExceeded)]\<rparr>)"
  by code_simp

section \<open>Early returns before the endpoint is bound\<close>

text \<open>
  Claim C5. When the interface lookup fails, or the interface has no address of the
  requested family, either probe returns \<open>false\<close> with the configuration error of that
  check, and the world it returns is the one it was given: no bind was attempted, nothing
  was sent or read.
\<close>

theorem no_address_no_io:
  "(InterfaceByName E ifaceName = Inl err \<longrightarrow>
      CheckIfOtherDHCPServersPresentV4 E ifaceName w =
        Some (Return False
          (Some (Errorf ''couldn't find interface by name %s: %w'' (Some err))), w) \<and>
      CheckIfOtherDHCPServersPresentV6 E ifaceName w =
        Some (Return False
          (Some (Errorf ''dhcpv6: net.InterfaceByName: %s: %w'' (Some err))), w)) \<and>
   (InterfaceByName E ifaceName = Inr iface \<and> getIfaceIPv4 E iface = [] \<longrightarrow>
      CheckIfOtherDHCPServersPresentV4 E ifaceName w =
        Some (Return False
          (Some (Error ''couldn't find IPv4 address of interface %s %+v'')), w)) \<and>
   (InterfaceByName E ifaceName = Inr iface \<and> getIfaceIPv6 E iface = [] \<longrightarrow>
      CheckIfOtherDHCPServersPresentV6 E ifaceName w =
        Some (Return False
          (Some (Error ''dhcpv6: couldn't find IPv6 address of interface %s %+v'')), w))"
  by (simp add: CheckIfOtherDHCPServersPresentV4_def CheckIfOtherDHCPServersPresentV6_def
        prepareV4_def prepareV6_def)

theorem no_address_no_io_witness:
  "CheckIfOtherDHCPServersPresentV4 (example_env net_offer4) ''wlan0'' w0 =
     Some (Return False (Some (Errorf ''couldn't find interface by name %s: %w''
       (Some (Error ''no such network interface'')))), w0) \<and>
   CheckIfOtherDHCPServersPresentV6 (example_env net_offer4) ''wlan0'' w0 =
     Some (Return False (Some (Errorf ''dhcpv6: net.InterfaceByName: %s: %w''
       (Some (Error ''no such network interface'')))), w0) \<and>
   CheckIfOtherDHCPServersPresentV4
       ((example_env net_offer4)\<lparr>getIfaceIPv4 := \<lambda>i. []\<rparr>) ''eth0'' w0 =
     Some (Return False (Some (Error ''couldn't find IPv4 address of interface %s %+v'')), w0) \<and>
   CheckIfOtherDHCPServersPresentV6
       ((example_env net_offer4)\<lparr>getIfaceIPv6 := \<lambda>i. []\<rparr>) ''eth0'' w0 =
     Some (Return False
       (Some (Error ''dhcpv6: couldn't find IPv6 address of interface %s %+v'')), w0) \<and>
   trace w0 = []"
proof -
  have a: "InterfaceByName (example_env net_offer4) ''wlan0'' =
      Inl (Error ''no such network interface'')"
    by (simp add: example_env_def)
  have b: "InterfaceByName ((example_env net_offer4)\<lparr>getIfaceIPv4 := \<lambda>i. []\<rparr>) ''eth0'' = Inr eth0 \<and>
      getIfaceIPv4 ((example_env net_offer4)\<lparr>getIfaceIPv4 := \<lambda>i. []\<rparr>) eth0 = []"
    by (simp add: example_env_def)
  have c: "InterfaceByName ((example_env net_offer4)\<lparr>getIfaceIPv6 := \<lambda>i. []\<rparr>) ''eth0'' = Inr eth0 \<and>
      getIfaceIPv6 ((example_env net_offer4)\<lparr>getIfaceIPv6 := \<lambda>i. []\<rparr>) eth0 = []"
    by (simp add: example_env_def)
  show ?thesis
    using a b c
      no_address_no_io[of "example_env net_offer4" "''wlan0''"
        "Error ''no such network interface''" w0 eth0]
      no_address_no_io[of "(example_env net_offer4)\<lparr>getIfaceIPv4 := \<lambda>i. []\<rparr>" "''eth0''"
        "Error ''x''" w0 eth0]
      no_address_no_io[of "(example_env net_offer4)\<lparr>getIfaceIPv6 := \<lambda>i. []\<rparr>" "''eth0''"
        "Error ''x''" w0 eth0]
    by (simp add: w0_def)
qed

text \<open>
  Claim C7. On \<open>darwin\<close> the DHCPv4 probe always returns \<open>false\<close> with an error and
  leaves the world as it was: no bind is attempted, nothing is sent or read. The platform
  check of line 35 comes after the interface checks of lines 24-33, so the error is the
  unsupported-platform error whenever the interface exists and has an IPv4 address, and
  the error of the failed interface check otherwise.
\<close>

theorem darwin_fails_before_io:
  "GOOS E = ''darwin'' \<longrightarrow>
     (\<exists>e. CheckIfOtherDHCPServersPresentV4 E ifaceName w = Some (Return False (Some e), w)) \<and>
     (\<forall>iface. InterfaceByName E ifaceName = Inr iface \<and> getIfaceIPv4 E iface \<noteq> [] \<longrightarrow>
        CheckIfOtherDHCPServersPresentV4 E ifaceName w =
          Some (Return False
            (Some (Error ''can't find DHCP server: not supported on macOS'')), w))"
  by (auto simp add: CheckIfOtherDHCPServersPresentV4_def prepareV4_def Let_def
        split: sum.splits)

theorem darwin_fails_before_io_witness:
  "GOOS ((example_env net_offer4)\<lparr>GOOS := ''darwin''\<rparr>) = ''darwin'' \<and>
   CheckIfOtherDHCPServersPresentV4 ((example_env net_offer4)\<lparr>GOOS := ''darwin''\<rparr>) ''eth0'' w0 =
     Some (Return False (Some (Error ''can't find DHCP server: not supported on macOS'')), w0) \<and>
   (\<exists>e. CheckIfOtherDHCPServersPresentV4 ((example_env net_offer4)\<lparr>GOOS := ''darwin''\<rparr>)
          ''wlan0'' w0 = Some (Return False (Some e), w0)) \<and>
   trace w0 = []"
proof -
  let ?E = "(example_env net_offer4)\<lparr>GOOS := ''darwin''\<rparr>"
  have g: "GOOS ?E = ''darwin''" by simp
  have i: "InterfaceByName ?E ''eth0'' = Inr eth0 \<and> getIfaceIPv4 ?E eth0 \<noteq> []"
    by (simp add: example_env_def)
  from darwin_fails_before_io[of ?E "''eth0''" w0] g i
  have a: "CheckIfOtherDHCPServersPresentV4 ?E ''eth0'' w0 =
     Some (Return False (Some (Error ''can't find DHCP server: not supported on macOS'')), w0)"
    by blast
  from darwin_fails_before_io[of ?E "''wlan0''" w0] g
  have b: "\<exists>e. CheckIfOtherDHCPServersPresentV4 ?E ''wlan0'' w0 =
      Some (Return False (Some e), w0)"
    by blast
  from g a b show ?thesis by (simp add: w0_def)
qed

text \<open>
  Claim C10. When everything before it succeeded and the resolved local address is not
  the first address of the interface, either probe returns \<open>false\<close> with an error
  before it binds, and the operand of \<open>%w\<close> in that error is \<open>nil\<close>: it is the
  variable \<open>err\<close> of the resolution that has just succeeded.
\<close>

theorem address_mismatch_wraps_nil:
  "(InterfaceByName E ifaceName = Inr iface \<and> getIfaceIPv4 E iface = ip # ips \<and>
    GOOS E \<noteq> ''darwin'' \<and> NewDiscovery E (HardwareAddr iface) = Inr req4 \<and>
    ResolveUDPAddr E ''udp4'' (JoinHostPort E (IPString E ip) ''68'') = Inr udpAddr \<and>
    \<not> IPEqual E (To4 E (IP udpAddr)) ip \<longrightarrow>
      CheckIfOtherDHCPServersPresentV4 E ifaceName w =
        Some (Return False (Some (Errorf ''resolved UDP address is not %s: %w'' None)), w)) \<and>
   (InterfaceByName E ifaceName = Inr iface \<and> getIfaceIPv6 E iface = ip # ips \<and>
    NewSolicit E (HardwareAddr iface) = Inr req6 \<and>
    ResolveUDPAddr E ''udp6'' (JoinHostPort E (IPString E ip) ''546'') = Inr udpAddr \<and>
    \<not> IPEqual E (To16 E (IP udpAddr)) ip \<longrightarrow>
      CheckIfOtherDHCPServersPresentV6 E ifaceName w =
        Some (Return False
          (Some (Errorf ''dhcpv6: Resolved UDP address is not %s: %w'' None)), w))"
  by (simp add: CheckIfOtherDHCPServersPresentV4_def CheckIfOtherDHCPServersPresentV6_def
        prepareV4_def prepareV6_def err_of_def Let_def)

theorem address_mismatch_wraps_nil_witness:
  "CheckIfOtherDHCPServersPresentV4
     ((example_env net_offer4)\<lparr>ResolveUDPAddr := \<lambda>n a. Inr \<lparr>IP = [10, 0, 0, 1], Port = 68\<rparr>\<rparr>)
     ''eth0'' w0 =
     Some (Return False (Some (Errorf ''resolved UDP address is not %s: %w'' None)), w0) \<and>
   CheckIfOtherDHCPServersPresentV6
     ((example_env net_offer4)\<lparr>ResolveUDPAddr := \<lambda>n a. Inr \<lparr>IP = [10, 0, 0, 1], Port = 68\<rparr>\<rparr>)
     ''eth0'' w0 =
     Some (Return False (Some (Errorf ''dhcpv6: Resolved UDP address is not %s: %w'' None)), w0) \<and>
   trace w0 = []"
proof -
  let ?E = "(example_env net_offer4)\<lparr>ResolveUDPAddr :=
      \<lambda>n a. Inr \<lparr>IP = [10, 0, 0, 1], Port = 68\<rparr>\<rparr>"
  let ?ip4 = "[192, 168, 1, 10] :: IP"
  let ?ip6 = "[254, 128, 0, 0, 0, 0, 0, 0, 0, 0, 0, 0, 0, 0, 0, 1] :: IP"
  let ?u = "\<lparr>IP = [10, 0, 0, 1], Port = 68\<rparr>"
  have h4: "InterfaceByName ?E ''eth0'' = Inr eth0 \<and> getIfaceIPv4 ?E eth0 = ?ip4 # [] \<and>
    GOOS ?E \<noteq> ''darwin'' \<and>
    NewDiscovery ?E (HardwareAddr eth0) =
      Inr \<lparr>OpCode = 1, HWType = 1, TransactionID = [9, 9, 9, 9],
           ClientHWAddr = HardwareAddr eth0, Options = [OptionDHCPMessageType \<mapsto> [1]]\<rparr> \<and>
    ResolveUDPAddr ?E ''udp4'' (JoinHostPort ?E (IPString ?E ?ip4) ''68'') = Inr ?u \<and>
    \<not> IPEqual ?E (To4 ?E (IP ?u)) ?ip4"
    by (simp add: example_env_def)
  have h6: "InterfaceByName ?E ''eth0'' = Inr eth0 \<and> getIfaceIPv6 ?E eth0 = ?ip6 # [] \<and>
    NewSolicit ?E (HardwareAddr eth0) =
      Inr \<lparr>MessageType = 1, TransactionID6 = [7, 7, 7], ClientID = Some (HardwareAddr eth0)\<rparr> \<and>
    ResolveUDPAddr ?E ''udp6'' (JoinHostPort ?E (IPString ?E ?ip6) ''546'') = Inr ?u \<and>
    \<not> IPEqual ?E (To16 ?E (IP ?u)) ?ip6"
    by (simp add: example_env_def NewSolicit_def MessageTypeSolicit_def)
  from address_mismatch_wraps_nil[of ?E "''eth0''" eth0 ?ip4 "[]" _ ?u w0, THEN conjunct1] h4
  have a: "CheckIfOtherDHCPServersPresentV4 ?E ''eth0'' w0 =
     Some (Return False (Some (Errorf ''resolved UDP address is not %s: %w'' None)), w0)"
    by blast
  from address_mismatch_wraps_nil[of ?E "''eth0''" eth0 ?ip6 "[]" _ ?u w0, THEN conjunct2] h6
  have b: "CheckIfOtherDHCPServersPresentV6 ?E ''eth0'' w0 =
     Some (Return False (Some (Errorf ''dhcpv6: Resolved UDP address is not %s: %w'' None)), w0)"
    by blast
  from a b show ?thesis by (simp add: w0_def)
qed

section \<open>Timeouts and transport errors\<close>

text \<open>
  Claim C2. In the receive loop of either probe, a read whose error \<open>isTimeout\<close>
  classifies as a timeout makes the probe return \<open>(false, nil)\<close>; a read that fails
  with any other non-nil error makes it return \<open>false\<close> with that error wrapped by
  \<open>couldn't receive packet: %w\<close>. The first four parts say so for one iteration of
  each loop, started in any world. The last two say it of a whole probe whose last endpoint
  call before the close was a read returning \<open>err\<close>: a timeout is never reported
  as an error, and another error is never returned as \<open>(false, nil)\<close>.
\<close>

theorem timeout_negative_other_error_reported:
  "(isTimeout E (snd (fst (readOnce E 1500 w))) \<longrightarrow>
      recvLoopV4 E iface req4 w = Some (Return False None, snd (readOnce E 1500 w))) \<and>
   (\<not> isTimeout E (snd (fst (readOnce E 1500 w))) \<and> snd (fst (readOnce E 1500 w)) \<noteq> None \<longrightarrow>
      recvLoopV4 E iface req4 w =
        Some (Return False (Some (Errorf ''couldn't receive packet: %w''
                (snd (fst (readOnce E 1500 w))))), snd (readOnce E 1500 w))) \<and>
   (isTimeout E (snd (fst (readOnce E 4096 w))) \<longrightarrow>
      recvLoopV6 E req6 w = Some (Return False None, snd (readOnce E 4096 w))) \<and>
   (\<not> isTimeout E (snd (fst (readOnce E 4096 w))) \<and> snd (fst (readOnce E 4096 w)) \<noteq> None \<longrightarrow>
      recvLoopV6 E req6 w =
        Some (Return False (Some (Errorf ''couldn't receive packet: %w''
                (snd (fst (readOnce E 4096 w))))), snd (readOnce E 4096 w))) \<and>
   (CheckIfOtherDHCPServersPresentV4 E ifaceName w = Some (out, w') \<and>
    trace w' = trace w @ evs @ [EvReadFrom b err, EvClose] \<longrightarrow>
      (isTimeout E err \<longrightarrow> out = Return False None) \<and>
      (\<not> isTimeout E err \<and> err \<noteq> None \<longrightarrow>
         out = Return False (Some (Errorf ''couldn't receive packet: %w'' err)))) \<and>
   (CheckIfOtherDHCPServersPresentV6 E ifaceName w = Some (out, w') \<and>
    trace w' = trace w @ evs @ [EvReadFrom b err, EvClose] \<longrightarrow>
      (isTimeout E err \<longrightarrow> out = Return False None) \<and>
      (\<not> isTimeout E err \<and> err \<noteq> None \<longrightarrow>
         out = Return False (Some (Errorf ''couldn't receive packet: %w'' err))))"
proof (intro conjI impI)
  assume "isTimeout E (snd (fst (readOnce E 1500 w)))"
  then show "recvLoopV4 E iface req4 w = Some (Return False None, snd (readOnce E 1500 w))"
    by (rule recvLoopV4_timeout)
next
  assume "\<not> isTimeout E (snd (fst (readOnce E 1500 w))) \<and> snd (fst (readOnce E 1500 w)) \<noteq> None"
  then show "recvLoopV4 E iface req4 w =
        Some (Return False (Some (Errorf ''couldn't receive packet: %w''
                (snd (fst (readOnce E 1500 w))))), snd (readOnce E 1500 w))"
    by (intro recvLoopV4_read_error) simp_all
next
  assume "isTimeout E (snd (fst (readOnce E 4096 w)))"
  then show "recvLoopV6 E req6 w = Some (Return False None, snd (readOnce E 4096 w))"
    by (rule recvLoopV6_timeout)
next
  assume "\<not> isTimeout E (snd (fst (readOnce E 4096 w))) \<and> snd (fst (readOnce E 4096 w)) \<noteq> None"
  then show "recvLoopV6 E req6 w =
        Some (Return False (Some (Errorf ''couldn't receive packet: %w''
                (snd (fst (readOnce E 4096 w))))), snd (readOnce E 4096 w))"
    by (intro recvLoopV6_read_error) simp_all
next
  assume a: "CheckIfOtherDHCPServersPresentV4 E ifaceName w = Some (out, w') \<and>
    trace w' = trace w @ evs @ [EvReadFrom b err, EvClose]" and t: "isTimeout E err"
  from a CheckV4_last_read[of E ifaceName w out w' evs b err] t
  show "out = Return False None" by blast
next
  assume a: "CheckIfOtherDHCPServersPresentV4 E ifaceName w = Some (out, w') \<and>
    trace w' = trace w @ evs @ [EvReadFrom b err, EvClose]"
    and t: "\<not> isTimeout E err \<and> err \<noteq> None"
  from a CheckV4_last_read[of E ifaceName w out w' evs b err] t
  show "out = Return False (Some (Errorf ''couldn't receive packet: %w'' err))" by blast
next
  assume a: "CheckIfOtherDHCPServersPresentV6 E ifaceName w = Some (out, w') \<and>
    trace w' = trace w @ evs @ [EvReadFrom b err, EvClose]" and t: "isTimeout E err"
  from a CheckV6_last_read[of E ifaceName w out w' evs b err] t
  show "out = Return False None" by blast
next
  assume a: "CheckIfOtherDHCPServersPresentV6 E ifaceName w = Some (out, w') \<and>
    trace w' = trace w @ evs @ [EvReadFrom b err, EvClose]"
    and t: "\<not> isTimeout E err \<and> err \<noteq> None"
  from a CheckV6_last_read[of E ifaceName w out w' evs b err] t
  show "out = Return False (Some (Errorf ''couldn't receive packet: %w'' err))" by blast
qed

theorem timeout_negative_other_error_reported_witness:
  "isTimeout (example_env net_noise) (Some ErrDeadlineExceeded) \<and>
   \<not> isTimeout (example_env net_error) (Some (Error ''network is down'')) \<and>
   recvLoopV4 (example_env net_noise) eth0 example_req4 w1 =
     Some (Return False None,
       \<lparr>clock = 5, deadline = Some 5, received = 1,
        trace = [EvSetReadDeadline 5, EvReadFrom [] (Some ErrDeadlineExceeded)]\<rparr>) \<and>
   recvLoopV6 (example_env net_noise) example_req6 w1 =
     Some (Return False None,
       \<lparr>clock = 5, deadline = Some 5, received = 1,
        trace = [EvSetReadDeadline 5, EvReadFrom [] (Some ErrDeadlineExceeded)]\<rparr>) \<and>
   recvLoopV4 (example_env net_error) eth0 example_req4 w0 =
     Some (Return False
        (Some (Errorf ''couldn't receive packet: %w'' (Some (Error ''network is down'')))),
       \<lparr>clock = 1, deadline = Some 3, received = 1,
        trace = [EvSetReadDeadline 3, EvReadFrom [] (Some (Error ''network is down''))]\<rparr>) \<and>
   recvLoopV6 (example_env net_error) example_req6 w0 =
     Some (Return False
        (Some (Errorf ''couldn't receive packet: %w'' (Some (Error ''network is down'')))),
       \<lparr>clock = 1, deadline = Some 3, received = 1,
        trace = [EvSetReadDeadline 3, EvReadFrom [] (Some (Error ''network is down''))]\<rparr>) \<and>
   fst (the (CheckIfOtherDHCPServersPresentV4 (example_env net_noise) ''eth0'' w0)) =
     Return False None \<and>
   fst (the (CheckIfOtherDHCPServersPresentV6 (example_env net_noise) ''eth0'' w0)) =
     Return False None \<and>
   fst (the (CheckIfOtherDHCPServersPresentV4 (example_env net_error) ''eth0'' w0)) =
     Return False
       (Some (Errorf ''couldn't receive packet: %w'' (Some (Error ''network is down'')))) \<and>
   fst (the (CheckIfOtherDHCPServersPresentV6 (example_env net_error) ''eth0'' w0)) =
     Return False
       (Some (Errorf ''couldn't receive packet: %w'' (Some (Error ''network is down''))))"
proof -
  let ?En = "example_env net_noise"
  let ?Ee = "example_env net_error"
  let ?down = "Error ''network is down''"
  have r4: "readOnce ?En 1500 w1 = (([], Some ErrDeadlineExceeded),
      \<lparr>clock = 5, deadline = Some 5, received = 1,
       trace = [EvSetReadDeadline 5, EvReadFrom [] (Some ErrDeadlineExceeded)]\<rparr>)"
    by (simp add: readOnce_def ReadFrom_def SetReadDeadline_def log_event_def example_env_def
          net_noise_def silence_def w1_def Let_def)
  have r6: "readOnce ?En 4096 w1 = (([], Some ErrDeadlineExceeded),
      \<lparr>clock = 5, deadline = Some 5, received = 1,
       trace = [EvSetReadDeadline 5, EvReadFrom [] (Some ErrDeadlineExceeded)]\<rparr>)"
    by (simp add: readOnce_def ReadFrom_def SetReadDeadline_def log_event_def example_env_def
          net_noise_def silence_def w1_def Let_def)
  have e4: "readOnce ?Ee 1500 w0 = (([], Some ?down),
      \<lparr>clock = 1, deadline = Some 3, received = 1,
       trace = [EvSetReadDeadline 3, EvReadFrom [] (Some ?down)]\<rparr>)"
    by (simp add: readOnce_def ReadFrom_def SetReadDeadline_def log_event_def example_env_def
          net_error_def silence_def w0_def Let_def)
  have e6: "readOnce ?Ee 4096 w0 = (([], Some ?down),
      \<lparr>clock = 1, deadline = Some 3, received = 1,
       trace = [EvSetReadDeadline 3, EvReadFrom [] (Some ?down)]\<rparr>)"
    by (simp add: readOnce_def ReadFrom_def SetReadDeadline_def log_event_def example_env_def
          net_error_def silence_def w0_def Let_def)
  have t: "isTimeout (example_env net) (Some ErrDeadlineExceeded)"
    and n: "\<not> isTimeout (example_env net) (Some ?down)" for net
    by (simp_all add: example_env_def ErrDeadlineExceeded_def)
  have iter: "recvLoopV4 ?En eth0 example_req4 w1 =
      Some (Return False None, snd (readOnce ?En 1500 w1))"
    "recvLoopV6 ?En example_req6 w1 = Some (Return False None, snd (readOnce ?En 4096 w1))"
    "recvLoopV4 ?Ee eth0 example_req4 w0 =
       Some (Return False (Some (Errorf ''couldn't receive packet: %w'' (Some ?down))),
         snd (readOnce ?Ee 1500 w0))"
    "recvLoopV6 ?Ee example_req6 w0 =
       Some (Return False (Some (Errorf ''couldn't receive packet: %w'' (Some ?down))),
         snd (readOnce ?Ee 4096 w0))"
    using timeout_negative_other_error_reported[of ?En w1 eth0 example_req4 example_req6]
      timeout_negative_other_error_reported[of ?Ee w0 eth0 example_req4 example_req6]
    by (simp_all add: r4 r6 e4 e6 t n)
  have tr4: "trace \<lparr>clock = 5, deadline = Some 5, received = 1,
        trace = [EvListen, EvWriteTo [1, 1, 9, 9, 9, 9, 2, 0, 0, 0, 0, 1] example_dst4,
                 EvSetReadDeadline 3, EvReadFrom [1, 2, 3] None, EvSetReadDeadline 5,
                 EvReadFrom [] (Some ErrDeadlineExceeded), EvClose]\<rparr> =
      trace w0 @ [EvListen, EvWriteTo [1, 1, 9, 9, 9, 9, 2, 0, 0, 0, 0, 1] example_dst4,
                 EvSetReadDeadline 3, EvReadFrom [1, 2, 3] None, EvSetReadDeadline 5] @
        [EvReadFrom [] (Some ErrDeadlineExceeded), EvClose]"
    by (simp add: w0_def)
  have tr6: "trace \<lparr>clock = 1, deadline = Some 3, received = 1,
        trace = [EvListen, EvWriteTo [1, 7, 7, 7, 2, 0, 0, 0, 0, 1] example_dst6,
                 EvSetReadDeadline 3, EvReadFrom [] (Some ?down), EvClose]\<rparr> =
      trace w0 @ [EvListen, EvWriteTo [1, 7, 7, 7, 2, 0, 0, 0, 0, 1] example_dst6,
                 EvSetReadDeadline 3] @ [EvReadFrom [] (Some ?down), EvClose]"
    by (simp add: w0_def)
  have p4: "fst (the (CheckIfOtherDHCPServersPresentV4 ?En ''eth0'' w0)) = Return False None"
    using timeout_negative_other_error_reported[THEN conjunct2, THEN conjunct2,
        THEN conjunct2, THEN conjunct2, THEN conjunct1, THEN mp,
        OF conjI[OF example_run_noise4 tr4]] t[of net_noise] example_run_noise4
    by simp
  have p6: "fst (the (CheckIfOtherDHCPServersPresentV6 ?Ee ''eth0'' w0)) =
      Return False (Some (Errorf ''couldn't receive packet: %w'' (Some ?down)))"
    using timeout_negative_other_error_reported[THEN conjunct2, THEN conjunct2,
        THEN conjunct2, THEN conjunct2, THEN conjunct2, THEN mp,
        OF conjI[OF example_run_error6 tr6]] n[of net_error] example_run_error6
    by simp
  have q6: "fst (the (CheckIfOtherDHCPServersPresentV6 ?En ''eth0'' w0)) = Return False None"
    by (simp add: example_run_noise6)
  have q4: "fst (the (CheckIfOtherDHCPServersPresentV4 ?Ee ''eth0'' w0)) =
      Return False (Some (Errorf ''couldn't receive packet: %w'' (Some ?down)))"
    by (simp add: example_run_error4)
  from iter p4 p6 q4 q6 t[of net_noise] n[of net_error] show ?thesis
    by (simp add: r4 r6 e4 e6)
qed

section \<open>Which replies are accepted\<close>

text \<open>
  Claim C3. A read of the DHCPv4 loop that returned a datagram which decodes to
  \<open>response\<close> ends the probe with \<open>(true, nil)\<close> exactly when the five conditions
  hold: boot-reply opcode, Ethernet hardware type, the client hardware address of the
  interface, the transaction id of the request, and a DHCP message-type option. Otherwise
  the response is dropped and the loop goes on from the world after the read. Whenever the
  whole probe returns \<open>(true, nil)\<close>, its last read returned a datagram that decodes to
  a response with all five. (\<open>isTimeout(nil)\<close> is taken to be false: a read that
  succeeded is not a timeout.)
\<close>

theorem v4_accepts_iff_all_five:
  "(fst (readOnce E 1500 w) = (b, None) \<and> \<not> isTimeout E None \<and>
    FromBytes4 E b = Inr response \<longrightarrow>
      recvLoopV4 E iface req w =
        (if OpCode response = OpcodeBootReply \<and>
            HWType response = HWTypeEthernet \<and>
            ClientHWAddr response = HardwareAddr iface \<and>
            TransactionID response = TransactionID req \<and>
            Options response OptionDHCPMessageType \<noteq> None
         then Some (Return True None, snd (readOnce E 1500 w))
         else recvLoopV4 E iface req (snd (readOnce E 1500 w)))) \<and>
   (CheckIfOtherDHCPServersPresentV4 E ifaceName w = Some (Return True None, w') \<longrightarrow>
      (\<exists>iface req dstAddr evs b response.
         prepareV4 E ifaceName = Inr (iface, req, dstAddr) \<and>
         trace w' = trace w @ evs @ [EvReadFrom b None, EvClose] \<and>
         FromBytes4 E b = Inr response \<and>
         OpCode response = OpcodeBootReply \<and>
         HWType response = HWTypeEthernet \<and>
         ClientHWAddr response = HardwareAddr iface \<and>
         TransactionID response = TransactionID req \<and>
         Options response OptionDHCPMessageType \<noteq> None))"
proof (intro conjI impI)
  assume "fst (readOnce E 1500 w) = (b, None) \<and> \<not> isTimeout E None \<and>
    FromBytes4 E b = Inr response"
  then show "recvLoopV4 E iface req w =
        (if OpCode response = OpcodeBootReply \<and>
            HWType response = HWTypeEthernet \<and>
            ClientHWAddr response = HardwareAddr iface \<and>
            TransactionID response = TransactionID req \<and>
            Options response OptionDHCPMessageType \<noteq> None
         then Some (Return True None, snd (readOnce E 1500 w))
         else recvLoopV4 E iface req (snd (readOnce E 1500 w)))"
    using recvLoopV4_decoded[of E w b response iface req]
    by (simp add: matchesV4_def Has_def)
next
  assume run: "CheckIfOtherDHCPServersPresentV4 E ifaceName w = Some (Return True None, w')"
  then show "\<exists>iface req dstAddr evs b response.
         prepareV4 E ifaceName = Inr (iface, req, dstAddr) \<and>
         trace w' = trace w @ evs @ [EvReadFrom b None, EvClose] \<and>
         FromBytes4 E b = Inr response \<and>
         OpCode response = OpcodeBootReply \<and>
         HWType response = HWTypeEthernet \<and>
         ClientHWAddr response = HardwareAddr iface \<and>
         TransactionID response = TransactionID req \<and>
         Options response OptionDHCPMessageType \<noteq> None"
  proof (cases rule: CheckV4_cases)
    case (prepare_failed e)
    then show ?thesis by simp
  next
    case (prepared iface req dstAddr)
    from listenV4_accept[OF prepared(2)] obtain evs b response where
      "trace w' = trace w @ evs @ [EvReadFrom b None, EvClose]"
      "FromBytes4 E b = Inr response" "matchesV4 iface req response"
      by blast
    with prepared(1) show ?thesis
      unfolding matchesV4_def Has_def by blast
  qed
qed

theorem v4_accepts_iff_all_five_witness:
  "recvLoopV4 (example_env net_offer4) eth0 example_req4 w1 =
     Some (Return True None,
       \<lparr>clock = 4, deadline = Some 5, received = 2,
        trace = [EvSetReadDeadline 5,
                 EvReadFrom [2, 1, 9, 9, 9, 9, 2, 0, 0, 0, 0, 1, 2] None]\<rparr>) \<and>
   recvLoopV4 (example_env net_offer4) eth0 (example_req4\<lparr>TransactionID := [9, 9, 9, 8]\<rparr>) w1 =
     recvLoopV4 (example_env net_offer4) eth0 (example_req4\<lparr>TransactionID := [9, 9, 9, 8]\<rparr>)
       \<lparr>clock = 4, deadline = Some 5, received = 2,
        trace = [EvSetReadDeadline 5,
                 EvReadFrom [2, 1, 9, 9, 9, 9, 2, 0, 0, 0, 0, 1, 2] None]\<rparr> \<and>
   (\<exists>iface req dstAddr evs b response.
      prepareV4 (example_env net_offer4) ''eth0'' = Inr (iface, req, dstAddr) \<and>
      [EvListen, EvWriteTo [1, 1, 9, 9, 9, 9, 2, 0, 0, 0, 0, 1] example_dst4,
       EvSetReadDeadline 3, EvReadFrom [1, 2, 3] None, EvSetReadDeadline 5,
       EvReadFrom [2, 1, 9, 9, 9, 9, 2, 0, 0, 0, 0, 1, 2] None, EvClose] =
        evs @ [EvReadFrom b None, EvClose] \<and>
      FromBytes4 (example_env net_offer4) b = Inr response \<and>
      OpCode response = OpcodeBootReply \<and>
      HWType response = HWTypeEthernet \<and>
      ClientHWAddr response = HardwareAddr iface \<and>
      TransactionID response = TransactionID req \<and>
      Options response OptionDHCPMessageType \<noteq> None)"
proof -
  let ?E = "example_env net_offer4"
  let ?b = "[2, 1, 9, 9, 9, 9, 2, 0, 0, 0, 0, 1, 2] :: bytes"
  let ?w2 = "\<lparr>clock = 4, deadline = Some 5, received = 2,
        trace = [EvSetReadDeadline 5, EvReadFrom ?b None]\<rparr>"
  let ?response = "\<lparr>OpCode = 2, HWType = 1, TransactionID = [9, 9, 9, 9],
        ClientHWAddr = [2, 0, 0, 0, 0, 1], Options = [OptionDHCPMessageType \<mapsto> [2]]\<rparr>"
  have rd: "readOnce ?E 1500 w1 = ((?b, None), ?w2)"
    by (simp add: readOnce_def ReadFrom_def SetReadDeadline_def log_event_def example_env_def
          net_offer4_def w1_def Let_def)
  have dec: "FromBytes4 ?E ?b = Inr ?response"
    by (simp add: example_env_def example_FromBytes4_def)
  have hyp: "fst (readOnce ?E 1500 w1) = (?b, None) \<and> \<not> isTimeout ?E None \<and>
      FromBytes4 ?E ?b = Inr ?response"
    using rd dec example_not_timeout_nil by simp
  have a: "recvLoopV4 ?E eth0 example_req4 w1 = Some (Return True None, ?w2)"
    using hyp v4_accepts_iff_all_five[of ?E w1 ?b ?response eth0 example_req4]
    by (simp add: rd example_req4_def eth0_def OpcodeBootReply_def HWTypeEthernet_def)
  have b: "recvLoopV4 ?E eth0 (example_req4\<lparr>TransactionID := [9, 9, 9, 8]\<rparr>) w1 =
      recvLoopV4 ?E eth0 (example_req4\<lparr>TransactionID := [9, 9, 9, 8]\<rparr>) ?w2"
    using hyp v4_accepts_iff_all_five[of ?E w1 ?b ?response eth0
        "example_req4\<lparr>TransactionID := [9, 9, 9, 8]\<rparr>"]
    by (simp add: rd example_req4_def eth0_def OpcodeBootReply_def HWTypeEthernet_def)
  have c: "\<exists>iface req dstAddr evs b response.
      prepareV4 ?E ''eth0'' = Inr (iface, req, dstAddr) \<and>
      [EvListen, EvWriteTo [1, 1, 9, 9, 9, 9, 2, 0, 0, 0, 0, 1] example_dst4,
       EvSetReadDeadline 3, EvReadFrom [1, 2, 3] None, EvSetReadDeadline 5,
       EvReadFrom ?b None, EvClose] = evs @ [EvReadFrom b None, EvClose] \<and>
      FromBytes4 ?E b = Inr response \<and>
      OpCode response = OpcodeBootReply \<and>
      HWType response = HWTypeEthernet \<and>
      ClientHWAddr response = HardwareAddr iface \<and>
      TransactionID response = TransactionID req \<and>
      Options response OptionDHCPMessageType \<noteq> None"
    using v4_accepts_iff_all_five[of ?E w0 "[]" ?response eth0 example_req4 "''eth0''"
        "\<lparr>clock = 4, deadline = Some 5, received = 2,
          trace = [EvListen, EvWriteTo [1, 1, 9, 9, 9, 9, 2, 0, 0, 0, 0, 1] example_dst4,
                   EvSetReadDeadline 3, EvReadFrom [1, 2, 3] None, EvSetReadDeadline 5,
                   EvReadFrom ?b None, EvClose]\<rparr>",
        THEN conjunct2, THEN mp, OF example_run_offer4]
    by (simp add: w0_def)
  from a b c show ?thesis by blast
qed

lemma matchesV6_True_iff:
  "matchesV6 req resp msg = Some True \<longleftrightarrow>
     Type resp = MessageTypeAdvertise \<and> TransactionID6 msg = TransactionID6 req \<and>
     ClientID msg \<noteq> None \<and> ClientID msg = ClientID req"
  by (auto simp add: matchesV6_def Let_def split: option.splits)

lemma matchesV6_no_client_id: "ClientID msg = None \<Longrightarrow> matchesV6 req resp msg = Some False"
  by (simp add: matchesV6_def)

lemma matchesV6_defined: "ClientID req \<noteq> None \<Longrightarrow> matchesV6 req resp msg \<noteq> None"
  by (auto simp add: matchesV6_def Let_def split: option.splits)

text \<open>
  Claim C4. For a SOLICIT that carries the client identifier \<open>cid\<close>, a read of the
  DHCPv6 loop that returned a datagram decoding to \<open>resp\<close> with inner message
  \<open>msg\<close> ends the probe with \<open>(true, nil)\<close> exactly when the four conditions hold:
  the type of \<open>resp\<close> is ADVERTISE, the transaction id of \<open>msg\<close> is that of the
  request, \<open>msg\<close> has a client identifier, and it equals \<open>cid\<close>. Otherwise the
  response is dropped and the loop goes on. Whenever the whole probe returns
  \<open>(true, nil)\<close>, its last read returned such a reply.
\<close>

theorem v6_accepts_iff_all_four:
  "(fst (readOnce E 4096 w) = (b, None) \<and> \<not> isTimeout E None \<and>
    FromBytes6 E b = Inr resp \<and> GetInnerMessage resp = Inr msg \<and>
    ClientID req = Some cid \<longrightarrow>
      recvLoopV6 E req w =
        (if Type resp = MessageTypeAdvertise \<and>
            TransactionID6 msg = TransactionID6 req \<and>
            ClientID msg \<noteq> None \<and>
            ClientID msg = Some cid
         then Some (Return True None, snd (readOnce E 4096 w))
         else recvLoopV6 E req (snd (readOnce E 4096 w)))) \<and>
   (CheckIfOtherDHCPServersPresentV6 E ifaceName w = Some (Return True None, w') \<longrightarrow>
      (\<exists>req dstAddr evs b resp msg.
         prepareV6 E ifaceName = Inr (req, dstAddr) \<and>
         trace w' = trace w @ evs @ [EvReadFrom b None, EvClose] \<and>
         FromBytes6 E b = Inr resp \<and> GetInnerMessage resp = Inr msg \<and>
         Type resp = MessageTypeAdvertise \<and>
         TransactionID6 msg = TransactionID6 req \<and>
         ClientID msg \<noteq> None \<and>
         ClientID msg = ClientID req))"
proof (intro conjI impI)
  assume a: "fst (readOnce E 4096 w) = (b, None) \<and> \<not> isTimeout E None \<and>
    FromBytes6 E b = Inr resp \<and> GetInnerMessage resp = Inr msg \<and> ClientID req = Some cid"
  then have "matchesV6 req resp msg =
      Some (Type resp = MessageTypeAdvertise \<and> TransactionID6 msg = TransactionID6 req \<and>
            ClientID msg \<noteq> None \<and> ClientID msg = Some cid)"
    by (auto simp add: matchesV6_def Let_def split: option.splits)
  with a show "recvLoopV6 E req w =
        (if Type resp = MessageTypeAdvertise \<and>
            TransactionID6 msg = TransactionID6 req \<and>
            ClientID msg \<noteq> None \<and>
            ClientID msg = Some cid
         then Some (Return True None, snd (readOnce E 4096 w))
         else recvLoopV6 E req (snd (readOnce E 4096 w)))"
    using recvLoopV6_decoded[of E w b resp msg req] by simp
next
  assume run: "CheckIfOtherDHCPServersPresentV6 E ifaceName w = Some (Return True None, w')"
  then show "\<exists>req dstAddr evs b resp msg.
         prepareV6 E ifaceName = Inr (req, dstAddr) \<and>
         trace w' = trace w @ evs @ [EvReadFrom b None, EvClose] \<and>
         FromBytes6 E b = Inr resp \<and> GetInnerMessage resp = Inr msg \<and>
         Type resp = MessageTypeAdvertise \<and>
         TransactionID6 msg = TransactionID6 req \<and>
         ClientID msg \<noteq> None \<and>
         ClientID msg = ClientID req"
  proof (cases rule: CheckV6_cases)
    case (prepare_failed e)
    then show ?thesis by simp
  next
    case (prepared req dstAddr)
    from listenV6_accept[OF prepared(2)] obtain evs b resp msg where
      "trace w' = trace w @ evs @ [EvReadFrom b None, EvClose]"
      "FromBytes6 E b = Inr resp" "GetInnerMessage resp = Inr msg"
      "matchesV6 req resp msg = Some True"
      by blast
    with prepared(1) show ?thesis
      unfolding matchesV6_True_iff by blast
  qed
qed

theorem v6_accepts_iff_all_four_witness:
  "recvLoopV6 (example_env net_advertise6) example_req6 w1 =
     Some (Return True None,
       \<lparr>clock = 4, deadline = Some 5, received = 2,
        trace = [EvSetReadDeadline 5,
                 EvReadFrom [2, 7, 7, 7, 2, 0, 0, 0, 0, 1] None]\<rparr>) \<and>
   recvLoopV6 (example_env net_advertise6) (example_req6\<lparr>ClientID := Some [2, 0, 0, 0, 0, 9]\<rparr>) w1 =
     recvLoopV6 (example_env net_advertise6) (example_req6\<lparr>ClientID := Some [2, 0, 0, 0, 0, 9]\<rparr>)
       \<lparr>clock = 4, deadline = Some 5, received = 2,
        trace = [EvSetReadDeadline 5,
                 EvReadFrom [2, 7, 7, 7, 2, 0, 0, 0, 0, 1] None]\<rparr> \<and>
   (\<exists>req dstAddr evs b resp msg.
      prepareV6 (example_env net_advertise6) ''eth0'' = Inr (req, dstAddr) \<and>
      [EvListen, EvWriteTo [1, 7, 7, 7, 2, 0, 0, 0, 0, 1] example_dst6,
       EvSetReadDeadline 3, EvReadFrom [1, 2, 3] None, EvSetReadDeadline 5,
       EvReadFrom [2, 7, 7, 7, 2, 0, 0, 0, 0, 1] None, EvClose] =
        evs @ [EvReadFrom b None, EvClose] \<and>
      FromBytes6 (example_env net_advertise6) b = Inr resp \<and>
      GetInnerMessage resp = Inr msg \<and>
      Type resp = MessageTypeAdvertise \<and>
      TransactionID6 msg = TransactionID6 req \<and>
      ClientID msg \<noteq> None \<and>
      ClientID msg = ClientID req)"
proof -
  let ?E = "example_env net_advertise6"
  let ?b = "[2, 7, 7, 7, 2, 0, 0, 0, 0, 1] :: bytes"
  let ?w2 = "\<lparr>clock = 4, deadline = Some 5, received = 2,
        trace = [EvSetReadDeadline 5, EvReadFrom ?b None]\<rparr>"
  let ?msg = "\<lparr>MessageType = 2, TransactionID6 = [7, 7, 7],
        ClientID = Some [2, 0, 0, 0, 0, 1]\<rparr>"
  let ?resp = "\<lparr>Type = 2, GetInnerMessage = Inr ?msg\<rparr>"
  have rd: "readOnce ?E 4096 w1 = ((?b, None), ?w2)"
    by (simp add: readOnce_def ReadFrom_def SetReadDeadline_def log_event_def example_env_def
          net_advertise6_def w1_def Let_def)
  have dec: "FromBytes6 ?E ?b = Inr ?resp"
    by (simp add: example_env_def example_FromBytes6_def)
  have hyp: "fst (readOnce ?E 4096 w1) = (?b, None) \<and> \<not> isTimeout ?E None \<and>
      FromBytes6 ?E ?b = Inr ?resp \<and> GetInnerMessage ?resp = Inr ?msg \<and>
      ClientID (example_req6\<lparr>ClientID := Some c\<rparr>) = Some c" for c
    using rd dec example_not_timeout_nil by simp
  have a: "recvLoopV6 ?E example_req6 w1 = Some (Return True None, ?w2)"
    using hyp[of "[2, 0, 0, 0, 0, 1]"]
      v6_accepts_iff_all_four[of ?E w1 ?b ?resp ?msg example_req6 "[2, 0, 0, 0, 0, 1]"]
    by (simp add: rd example_req6_def MessageTypeAdvertise_def)
  have b: "recvLoopV6 ?E (example_req6\<lparr>ClientID := Some [2, 0, 0, 0, 0, 9]\<rparr>) w1 =
      recvLoopV6 ?E (example_req6\<lparr>ClientID := Some [2, 0, 0, 0, 0, 9]\<rparr>) ?w2"
    using hyp[of "[2, 0, 0, 0, 0, 9]"]
      v6_accepts_iff_all_four[of ?E w1 ?b ?resp ?msg
        "example_req6\<lparr>ClientID := Some [2, 0, 0, 0, 0, 9]\<rparr>" "[2, 0, 0, 0, 0, 9]"]
    by (simp add: rd example_req6_def MessageTypeAdvertise_def)
  have c: "\<exists>req dstAddr evs b resp msg.
      prepareV6 ?E ''eth0'' = Inr (req, dstAddr) \<and>
      [EvListen, EvWriteTo [1, 7, 7, 7, 2, 0, 0, 0, 0, 1] example_dst6,
       EvSetReadDeadline 3, EvReadFrom [1, 2, 3] None, EvSetReadDeadline 5,
       EvReadFrom ?b None, EvClose] = evs @ [EvReadFrom b None, EvClose] \<and>
      FromBytes6 ?E b = Inr resp \<and>
      GetInnerMessage resp = Inr msg \<and>
      Type resp = MessageTypeAdvertise \<and>
      TransactionID6 msg = TransactionID6 req \<and>
      ClientID msg \<noteq> None \<and>
      ClientID msg = ClientID req"
    using v6_accepts_iff_all_four[of ?E w0 "[]" ?resp ?msg example_req6 "[]" "''eth0''"
        "\<lparr>clock = 4, deadline = Some 5, received = 2,
          trace = [EvListen, EvWriteTo [1, 7, 7, 7, 2, 0, 0, 0, 0, 1] example_dst6,
                   EvSetReadDeadline 3, EvReadFrom [1, 2, 3] None, EvSetReadDeadline 5,
                   EvReadFrom ?b None, EvClose]\<rparr>",
        THEN conjunct2, THEN mp, OF example_run_advertise6]
    by (simp add: w0_def)
  from a b c show ?thesis by blast
qed

section \<open>The client identifier pointers of the DHCPv6 matcher\<close>

lemma NewSolicit_client_id:
  assumes "NewSolicit E hw = Inr req"
  shows "ClientID req \<noteq> None"
  using assms by (auto simp add: NewSolicit_def split: sum.splits)

lemma prepareV6_request:
  assumes "prepareV6 E ifaceName = Inr (req, dstAddr)"
  shows "\<exists>hw. NewSolicit E hw = Inr req"
  using assms by (auto simp add: prepareV6_def Let_def split: sum.splits if_splits)

lemma recvLoopV6_no_panic:
  assumes "recvLoopV6 E req w = Some (out, w')" and "ClientID req \<noteq> None"
  shows "out \<noteq> Panic"
  using assms(1)
proof (induction rule: recvLoopV6_induct)
  case (panic w b resp msg)
  with matchesV6_defined[OF assms(2), of resp msg] show ?case by simp
qed simp_all

text \<open>
  Claim C9. When the inner message of a reply has no client identifier
  (\<open>ClientID msg = None\<close>, the \<open>nil\<close> pointer), the matcher answers \<open>false\<close>
  without dereferencing anything, and the loop goes on to the next read (first two
  parts). A request built by \<open>NewSolicit\<close> has a client identifier, so on the request
  side \<open>cid\<close> is not \<open>nil\<close>: the matcher dereferences no \<open>nil\<close> pointer and the loop
  run with that request never panics (third part). The probe builds its request with
  \<open>NewSolicit\<close>, so the only panic left to it is the call on a \<open>nil\<close> connection that
  the bind returned without an error (fourth part).
\<close>

theorem v6_client_id_nil_safe:
  "(ClientID msg = None \<longrightarrow> matchesV6 req resp msg = Some False) \<and>
   (fst (readOnce E 4096 w) = (b, None) \<and> \<not> isTimeout E None \<and>
    FromBytes6 E b = Inr resp \<and> GetInnerMessage resp = Inr msg \<and> ClientID msg = None \<longrightarrow>
      recvLoopV6 E req w = recvLoopV6 E req (snd (readOnce E 4096 w))) \<and>
   (NewSolicit E hw = Inr built \<longrightarrow>
      ClientID built \<noteq> None \<and> matchesV6 built resp msg \<noteq> None \<and>
      recvLoopV6 E built w \<noteq> Some (Panic, w')) \<and>
   (CheckIfOtherDHCPServersPresentV6 E ifaceName w = Some (Panic, w') \<longrightarrow>
      NewIPv6UDPConn E ifaceName DefaultClientPort = (False, None))"
proof (intro conjI impI)
  assume "ClientID msg = None"
  then show "matchesV6 req resp msg = Some False" by (rule matchesV6_no_client_id)
next
  assume "fst (readOnce E 4096 w) = (b, None) \<and> \<not> isTimeout E None \<and>
    FromBytes6 E b = Inr resp \<and> GetInnerMessage resp = Inr msg \<and> ClientID msg = None"
  then show "recvLoopV6 E req w = recvLoopV6 E req (snd (readOnce E 4096 w))"
    using recvLoopV6_decoded[of E w b resp msg req] matchesV6_no_client_id[of msg req resp]
    by simp
next
  assume "NewSolicit E hw = Inr built"
  then show "ClientID built \<noteq> None" by (rule NewSolicit_client_id)
next
  assume "NewSolicit E hw = Inr built"
  then have "ClientID built \<noteq> None" by (rule NewSolicit_client_id)
  then show "matchesV6 built resp msg \<noteq> None" by (rule matchesV6_defined)
next
  assume "NewSolicit E hw = Inr built"
  then have "ClientID built \<noteq> None" by (rule NewSolicit_client_id)
  then show "recvLoopV6 E built w \<noteq> Some (Panic, w')"
    using recvLoopV6_no_panic[of E built w Panic w'] by blast
next
  assume "CheckIfOtherDHCPServersPresentV6 E ifaceName w = Some (Panic, w')"
  then show "NewIPv6UDPConn E ifaceName DefaultClientPort = (False, None)"
  proof (cases rule: CheckV6_cases)
    case (prepare_failed e)
    then show ?thesis by simp
  next
    case (prepared req dstAddr)
    from prepareV6_request[OF prepared(1)] obtain hw' where "NewSolicit E hw' = Inr req"
      by blast
    then have cid: "ClientID req \<noteq> None" by (rule NewSolicit_client_id)
    from prepared(2) show ?thesis
    proof (cases rule: listenV6_cases)
      case (listen_failed c e)
      then show ?thesis by simp
    next
      case nil_conn
      then show ?thesis by simp
    next
      case (send_failed e)
      then show ?thesis by simp
    next
      case (loop w'')
      from recvLoopV6_no_panic[OF loop(3) cid] show ?thesis by simp
    qed
  qed
qed

theorem v6_client_id_nil_safe_witness:
  "matchesV6 example_req6
     \<lparr>Type = 2, GetInnerMessage =
        Inr \<lparr>MessageType = 2, TransactionID6 = [7, 7, 7], ClientID = None\<rparr>\<rparr>
     \<lparr>MessageType = 2, TransactionID6 = [7, 7, 7], ClientID = None\<rparr> = Some False \<and>
   recvLoopV6 (example_env net_advertise6_no_cid) example_req6 w0 =
     recvLoopV6 (example_env net_advertise6_no_cid) example_req6
       \<lparr>clock = 1, deadline = Some 3, received = 1,
        trace = [EvSetReadDeadline 3, EvReadFrom [2, 7, 7, 7] None]\<rparr> \<and>
   NewSolicit (example_env net_advertise6_no_cid) (HardwareAddr eth0) = Inr example_req6 \<and>
   ClientID example_req6 \<noteq> None \<and>
   (\<forall>w'. recvLoopV6 (example_env net_advertise6_no_cid) example_req6 w0 \<noteq> Some (Panic, w')) \<and>
   CheckIfOtherDHCPServersPresentV6
     ((example_env net_advertise6_no_cid)\<lparr>NewIPv6UDPConn := \<lambda>n p. (False, None)\<rparr>) ''eth0'' w0 =
     Some (Panic, \<lparr>clock = 0, deadline = None, received = 0, trace = [EvListen]\<rparr>) \<and>
   NewIPv6UDPConn
     ((example_env net_advertise6_no_cid)\<lparr>NewIPv6UDPConn := \<lambda>n p. (False, None)\<rparr>) ''eth0''
     DefaultClientPort = (False, None) \<and>
   CheckIfOtherDHCPServersPresentV6 (example_env net_advertise6_no_cid) ''eth0'' w0 =
     Some (Return False None,
       \<lparr>clock = 4, deadline = Some 4, received = 1,
        trace = [EvListen, EvWriteTo [1, 7, 7, 7, 2, 0, 0, 0, 0, 1] example_dst6,
                 EvSetReadDeadline 3, EvReadFrom [2, 7, 7, 7] None, EvSetReadDeadline 4,
                 EvReadFrom [] (Some ErrDeadlineExceeded), EvClose]\<rparr>)"
proof -
  let ?E = "example_env net_advertise6_no_cid"
  let ?En = "?E\<lparr>NewIPv6UDPConn := \<lambda>n p. (False, None)\<rparr>"
  let ?b = "[2, 7, 7, 7] :: bytes"
  let ?msg = "\<lparr>MessageType = 2, TransactionID6 = [7, 7, 7], ClientID = None\<rparr>"
  let ?resp = "\<lparr>Type = 2, GetInnerMessage = Inr ?msg\<rparr>"
  let ?w2 = "\<lparr>clock = 1, deadline = Some 3, received = 1,
        trace = [EvSetReadDeadline 3, EvReadFrom ?b None]\<rparr>"
  let ?wp = "\<lparr>clock = 0, deadline = None, received = 0, trace = [EvListen]\<rparr>"
  note th = v6_client_id_nil_safe[of ?msg example_req6 ?resp ?E w0 ?b "HardwareAddr eth0"
      example_req6]
  have rd: "readOnce ?E 4096 w0 = ((?b, None), ?w2)"
    by (simp add: readOnce_def ReadFrom_def SetReadDeadline_def log_event_def example_env_def
          net_advertise6_no_cid_def w0_def Let_def)
  have dec: "FromBytes6 ?E ?b = Inr ?resp"
    by (simp add: example_env_def example_FromBytes6_def)
  have hyp: "fst (readOnce ?E 4096 w0) = (?b, None) \<and> \<not> isTimeout ?E None \<and>
      FromBytes6 ?E ?b = Inr ?resp \<and> GetInnerMessage ?resp = Inr ?msg \<and> ClientID ?msg = None"
    using rd dec example_not_timeout_nil by simp
  have built: "NewSolicit ?E (HardwareAddr eth0) = Inr example_req6"
    by (simp add: NewSolicit_def MessageTypeSolicit_def example_env_def eth0_def
          example_req6_def)
  have a: "matchesV6 example_req6 ?resp ?msg = Some False"
    using th[THEN conjunct1] by simp
  have b: "recvLoopV6 ?E example_req6 w0 = recvLoopV6 ?E example_req6 ?w2"
    using th[THEN conjunct2, THEN conjunct1] hyp rd by simp
  have c: "ClientID example_req6 \<noteq> None"
    and d: "\<forall>w'. recvLoopV6 ?E example_req6 w0 \<noteq> Some (Panic, w')"
    using th[THEN conjunct2, THEN conjunct2, THEN conjunct1] built by blast+
  have p: "CheckIfOtherDHCPServersPresentV6 ?En ''eth0'' w0 = Some (Panic, ?wp)"
    by code_simp
  have n: "NewIPv6UDPConn ?En ''eth0'' DefaultClientPort = (False, None)"
    using v6_client_id_nil_safe[of ?msg example_req6 ?resp ?En w0 ?b "HardwareAddr eth0"
        example_req6 ?wp "''eth0''", THEN conjunct2, THEN conjunct2, THEN conjunct2, THEN mp,
        OF p] .
  have e: "CheckIfOtherDHCPServersPresentV6 ?E ''eth0'' w0 =
     Some (Return False None,
       \<lparr>clock = 4, deadline = Some 4, received = 1,
        trace = [EvListen, EvWriteTo [1, 7, 7, 7, 2, 0, 0, 0, 0, 1] example_dst6,
                 EvSetReadDeadline 3, EvReadFrom [2, 7, 7, 7] None, EvSetReadDeadline 4,
                 EvReadFrom [] (Some ErrDeadlineExceeded), EvClose]\<rparr>)"
    by code_simp
  from a b built c d p n e show ?thesis by blast
qed

section \<open>Malformed and unrelated packets\<close>

lemma inTime_next:
  assumes "\<forall>j\<le>Suc k. inTime E w j"
    and "clock w2 = max (clock w) (arrival E (received w))"
    and "received w2 = received w + 1"
  shows "\<forall>j\<le>k. inTime E w2 j"
proof (intro allI impI)
  fix j assume "j \<le> k"
  with assms(1) have s: "inTime E w (Suc j)" by simp
  show "inTime E w2 j"
  proof (cases j)
    case 0
    with s assms(2,3) show ?thesis by (simp add: inTime_def)
  next
    case (Suc i)
    with s assms(2,3) show ?thesis by (simp add: inTime_def)
  qed
qed

lemma inTime_log_event: "inTime E (log_event e w) j = inTime E w j"
  by (simp add: inTime_def log_event_def split: nat.split)

lemma received_log_event: "received (log_event e w) = received w"
  by (simp add: log_event_def)

lemma recvLoopV4_skips:
  assumes "\<not> isTimeout E None"
    and "\<forall>j\<le>k. inTime E w j"
    and "\<forall>j<k. \<exists>p. datagram E (received w + j) = Some p \<and> droppedV4 E iface req (take 1500 p)"
    and "\<exists>p. datagram E (received w + k) = Some p \<and> acceptedV4 E iface req (take 1500 p)"
  shows "\<exists>w'. recvLoopV4 E iface req w = Some (Return True None, w')"
  using assms(2-4)
proof (induction k arbitrary: w)
  case 0
  then obtain p where p: "datagram E (received w) = Some p"
    "acceptedV4 E iface req (take 1500 p)" by auto
  from 0 have t: "arrival E (received w) \<le> clock w + defaultDiscoverTime E"
    by (simp add: inTime_def)
  from p(2) obtain response where "FromBytes4 E (take 1500 p) = Inr response"
    "matchesV4 iface req response"
    by (auto simp add: acceptedV4_def split: sum.splits)
  with recvLoopV4_decoded[OF readOnce_datagram(1)[OF p(1) t] assms(1), of response iface req]
  show ?case by simp
next
  case (Suc k)
  from Suc.prems(2) obtain p where p: "datagram E (received w) = Some p"
    "droppedV4 E iface req (take 1500 p)" by force
  from Suc.prems(1) have t: "arrival E (received w) \<le> clock w + defaultDiscoverTime E"
    by (force simp add: inTime_def)
  let ?w2 = "snd (readOnce E 1500 w)"
  note rd = readOnce_datagram[OF p(1) t, of 1500]
  have step: "recvLoopV4 E iface req w = recvLoopV4 E iface req ?w2"
  proof (cases "FromBytes4 E (take 1500 p)")
    case (Inl e)
    from recvLoopV4_undecodable[OF rd(1) assms(1) Inl] show ?thesis .
  next
    case (Inr response)
    with p(2) have "\<not> matchesV4 iface req response" by (simp add: droppedV4_def)
    with recvLoopV4_decoded[OF rd(1) assms(1) Inr, of iface req] show ?thesis by simp
  qed
  have a: "\<forall>j\<le>k. inTime E ?w2 j" using inTime_next[OF Suc.prems(1) rd(2) rd(3)] .
  have b: "\<forall>j<k. \<exists>p. datagram E (received ?w2 + j) = Some p \<and>
      droppedV4 E iface req (take 1500 p)"
  proof (intro allI impI)
    fix j assume "j < k"
    then have "Suc j < Suc k" by simp
    with Suc.prems(2) have "\<exists>p. datagram E (received w + Suc j) = Some p \<and>
      droppedV4 E iface req (take 1500 p)" by blast
    then show "\<exists>p. datagram E (received ?w2 + j) = Some p \<and>
      droppedV4 E iface req (take 1500 p)" using rd(3) by simp
  qed
  have c: "\<exists>p. datagram E (received ?w2 + k) = Some p \<and> acceptedV4 E iface req (take 1500 p)"
    using Suc.prems(3) rd(3) by simp
  from Suc.IH[OF a b c] step show ?case by simp
qed

lemma recvLoopV6_skips:
  assumes "\<not> isTimeout E None"
    and "\<forall>j\<le>k. inTime E w j"
    and "\<forall>j<k. \<exists>p. datagram E (received w + j) = Some p \<and> droppedV6 E req (take 4096 p)"
    and "\<exists>p. datagram E (received w + k) = Some p \<and> acceptedV6 E req (take 4096 p)"
  shows "\<exists>w'. recvLoopV6 E req w = Some (Return True None, w')"
  using assms(2-4)
proof (induction k arbitrary: w)
  case 0
  then obtain p where p: "datagram E (received w) = Some p"
    "acceptedV6 E req (take 4096 p)" by auto
  from 0 have t: "arrival E (received w) \<le> clock w + defaultDiscoverTime E"
    by (simp add: inTime_def)
  from p(2) obtain resp msg where "FromBytes6 E (take 4096 p) = Inr resp"
    "GetInnerMessage resp = Inr msg" "matchesV6 req resp msg = Some True"
    by (auto simp add: acceptedV6_def split: sum.splits)
  with recvLoopV6_decoded[OF readOnce_datagram(1)[OF p(1) t] assms(1), of resp msg req]
  show ?case by simp
next
  case (Suc k)
  from Suc.prems(2) obtain p where p: "datagram E (received w) = Some p"
    "droppedV6 E req (take 4096 p)" by force
  from Suc.prems(1) have t: "arrival E (received w) \<le> clock w + defaultDiscoverTime E"
    by (force simp add: inTime_def)
  let ?w2 = "snd (readOnce E 4096 w)"
  note rd = readOnce_datagram[OF p(1) t, of 4096]
  have step: "recvLoopV6 E req w = recvLoopV6 E req ?w2"
  proof (cases "FromBytes6 E (take 4096 p)")
    case (Inl e)
    from recvLoopV6_undecodable[OF rd(1) assms(1) Inl] show ?thesis .
  next
    case (Inr resp)
    show ?thesis
    proof (cases "GetInnerMessage resp")
      case inl: (Inl e)
      from recvLoopV6_no_inner[OF rd(1) assms(1) Inr inl] show ?thesis .
    next
      case inr: (Inr msg)
      with p(2) Inr have "matchesV6 req resp msg = Some False" by (simp add: droppedV6_def)
      with recvLoopV6_decoded[OF rd(1) assms(1) Inr inr, of req] show ?thesis by simp
    qed
  qed
  have a: "\<forall>j\<le>k. inTime E ?w2 j" using inTime_next[OF Suc.prems(1) rd(2) rd(3)] .
  have b: "\<forall>j<k. \<exists>p. datagram E (received ?w2 + j) = Some p \<and>
      droppedV6 E req (take 4096 p)"
  proof (intro allI impI)
    fix j assume "j < k"
    then have "Suc j < Suc k" by simp
    with Suc.prems(2) have "\<exists>p. datagram E (received w + Suc j) = Some p \<and>
      droppedV6 E req (take 4096 p)" by blast
    then show "\<exists>p. datagram E (received ?w2 + j) = Some p \<and>
      droppedV6 E req (take 4096 p)" using rd(3) by simp
  qed
  have c: "\<exists>p. datagram E (received ?w2 + k) = Some p \<and> acceptedV6 E req (take 4096 p)"
    using Suc.prems(3) rd(3) by simp
  from Suc.IH[OF a b c] step show ?case by simp
qed

text \<open>
  Claim C6. A datagram that does not decode, and in the DHCPv6 probe a reply whose inner
  message cannot be extracted, ends nothing: the loop goes on from the world after the
  read (first three parts). So when the bind and the send succeed, \<open>k\<close> datagrams that
  are dropped (malformed or not matching) followed by one that matches make the probe
  return \<open>(true, nil)\<close>, provided each of them arrives within \<open>defaultDiscoverTime\<close>
  of the one before it, that is, before the deadline of the read that waits for it.
\<close>

theorem bad_packets_are_skipped:
  "(fst (readOnce E 1500 w) = (b, None) \<and> \<not> isTimeout E None \<and> FromBytes4 E b = Inl e \<longrightarrow>
      recvLoopV4 E iface req4 w = recvLoopV4 E iface req4 (snd (readOnce E 1500 w))) \<and>
   (fst (readOnce E 4096 w) = (b, None) \<and> \<not> isTimeout E None \<and> FromBytes6 E b = Inl e \<longrightarrow>
      recvLoopV6 E req6 w = recvLoopV6 E req6 (snd (readOnce E 4096 w))) \<and>
   (fst (readOnce E 4096 w) = (b, None) \<and> \<not> isTimeout E None \<and> FromBytes6 E b = Inr resp \<and>
    GetInnerMessage resp = Inl e \<longrightarrow>
      recvLoopV6 E req6 w = recvLoopV6 E req6 (snd (readOnce E 4096 w))) \<and>
   (prepareV4 E ifaceName = Inr (iface, req4, dstAddr) \<and>
    NewRawUDPConn E ifaceName 68 = (True, None) \<and>
    WriteToErr E (ToBytes4 E req4) dstAddr = None \<and>
    \<not> isTimeout E None \<and>
    (\<forall>j\<le>k. inTime E w j) \<and>
    (\<forall>j<k. \<exists>p. datagram E (received w + j) = Some p \<and>
              droppedV4 E iface req4 (take 1500 p)) \<and>
    (\<exists>p. datagram E (received w + k) = Some p \<and> acceptedV4 E iface req4 (take 1500 p)) \<longrightarrow>
      (\<exists>w'. CheckIfOtherDHCPServersPresentV4 E ifaceName w = Some (Return True None, w'))) \<and>
   (prepareV6 E ifaceName = Inr (req6, dstAddr) \<and>
    NewIPv6UDPConn E ifaceName DefaultClientPort = (True, None) \<and>
    WriteToErr E (ToBytes6 E req6) dstAddr = None \<and>
    \<not> isTimeout E None \<and>
    (\<forall>j\<le>k. inTime E w j) \<and>
    (\<forall>j<k. \<exists>p. datagram E (received w + j) = Some p \<and> droppedV6 E req6 (take 4096 p)) \<and>
    (\<exists>p. datagram E (received w + k) = Some p \<and> acceptedV6 E req6 (take 4096 p)) \<longrightarrow>
      (\<exists>w'. CheckIfOtherDHCPServersPresentV6 E ifaceName w = Some (Return True None, w')))"
proof (intro conjI impI)
  assume "fst (readOnce E 1500 w) = (b, None) \<and> \<not> isTimeout E None \<and> FromBytes4 E b = Inl e"
  then show "recvLoopV4 E iface req4 w = recvLoopV4 E iface req4 (snd (readOnce E 1500 w))"
    using recvLoopV4_undecodable[of E w b e iface req4] by simp
next
  assume "fst (readOnce E 4096 w) = (b, None) \<and> \<not> isTimeout E None \<and> FromBytes6 E b = Inl e"
  then show "recvLoopV6 E req6 w = recvLoopV6 E req6 (snd (readOnce E 4096 w))"
    using recvLoopV6_undecodable[of E w b e req6] by simp
next
  assume "fst (readOnce E 4096 w) = (b, None) \<and> \<not> isTimeout E None \<and>
    FromBytes6 E b = Inr resp \<and> GetInnerMessage resp = Inl e"
  then show "recvLoopV6 E req6 w = recvLoopV6 E req6 (snd (readOnce E 4096 w))"
    using recvLoopV6_no_inner[of E w b resp e req6] by simp
next
  assume a: "prepareV4 E ifaceName = Inr (iface, req4, dstAddr) \<and>
    NewRawUDPConn E ifaceName 68 = (True, None) \<and>
    WriteToErr E (ToBytes4 E req4) dstAddr = None \<and>
    \<not> isTimeout E None \<and>
    (\<forall>j\<le>k. inTime E w j) \<and>
    (\<forall>j<k. \<exists>p. datagram E (received w + j) = Some p \<and>
              droppedV4 E iface req4 (take 1500 p)) \<and>
    (\<exists>p. datagram E (received w + k) = Some p \<and> acceptedV4 E iface req4 (take 1500 p))"
  let ?w1 = "log_event (EvWriteTo (ToBytes4 E req4) dstAddr) (log_event EvListen w)"
  from a have "\<exists>w'. recvLoopV4 E iface req4 ?w1 = Some (Return True None, w')"
    by (intro recvLoopV4_skips[of E k ?w1 iface req4])
       (simp_all add: inTime_log_event received_log_event)
  then obtain w'' where "recvLoopV4 E iface req4 ?w1 = Some (Return True None, w'')" by blast
  with a listenV4_accepts[of E ifaceName req4 dstAddr iface w "Return True None" w'']
    CheckV4_prepared[of E ifaceName iface req4 dstAddr w]
  show "\<exists>w'. CheckIfOtherDHCPServersPresentV4 E ifaceName w = Some (Return True None, w')"
    by simp
next
  assume a: "prepareV6 E ifaceName = Inr (req6, dstAddr) \<and>
    NewIPv6UDPConn E ifaceName DefaultClientPort = (True, None) \<and>
    WriteToErr E (ToBytes6 E req6) dstAddr = None \<and>
    \<not> isTimeout E None \<and>
    (\<forall>j\<le>k. inTime E w j) \<and>
    (\<forall>j<k. \<exists>p. datagram E (received w + j) = Some p \<and> droppedV6 E req6 (take 4096 p)) \<and>
    (\<exists>p. datagram E (received w + k) = Some p \<and> acceptedV6 E req6 (take 4096 p))"
  let ?w1 = "log_event (EvWriteTo (ToBytes6 E req6) dstAddr) (log_event EvListen w)"
  from a have "\<exists>w'. recvLoopV6 E req6 ?w1 = Some (Return True None, w')"
    by (intro recvLoopV6_skips[of E k ?w1 req6])
       (simp_all add: inTime_log_event received_log_event)
  then obtain w'' where "recvLoopV6 E req6 ?w1 = Some (Return True None, w'')" by blast
  with a listenV6_accepts[of E ifaceName req6 dstAddr w "Return True None" w'']
    CheckV6_prepared[of E ifaceName req6 dstAddr w]
  show "\<exists>w'. CheckIfOtherDHCPServersPresentV6 E ifaceName w = Some (Return True None, w')"
    by simp
qed

theorem bad_packets_are_skipped_witness:
  "recvLoopV4 (example_env net_offer4) eth0 example_req4 w0 =
     recvLoopV4 (example_env net_offer4) eth0 example_req4
       \<lparr>clock = 2, deadline = Some 3, received = 1,
        trace = [EvSetReadDeadline 3, EvReadFrom [1, 2, 3] None]\<rparr> \<and>
   recvLoopV6 (example_env net_advertise6) example_req6 w0 =
     recvLoopV6 (example_env net_advertise6) example_req6
       \<lparr>clock = 2, deadline = Some 3, received = 1,
        trace = [EvSetReadDeadline 3, EvReadFrom [1, 2, 3] None]\<rparr> \<and>
   recvLoopV6 (example_env net_relay6) example_req6 w0 =
     recvLoopV6 (example_env net_relay6) example_req6
       \<lparr>clock = 1, deadline = Some 3, received = 1,
        trace = [EvSetReadDeadline 3, EvReadFrom [12, 0, 0, 0] None]\<rparr> \<and>
   (\<exists>w'. CheckIfOtherDHCPServersPresentV4 (example_env net_offer4) ''eth0'' w0 =
      Some (Return True None, w')) \<and>
   (\<exists>w'. CheckIfOtherDHCPServersPresentV6 (example_env net_advertise6) ''eth0'' w0 =
      Some (Return True None, w'))"
proof -
  let ?E4 = "example_env net_offer4"
  let ?E6 = "example_env net_advertise6"
  let ?Er = "example_env net_relay6"
  let ?junk = "[1, 2, 3] :: bytes"
  let ?w2 = "\<lparr>clock = 2, deadline = Some 3, received = 1,
        trace = [EvSetReadDeadline 3, EvReadFrom ?junk None]\<rparr>"
  let ?relay = "[12, 0, 0, 0] :: bytes"
  let ?wr = "\<lparr>clock = 1, deadline = Some 3, received = 1,
        trace = [EvSetReadDeadline 3, EvReadFrom ?relay None]\<rparr>"
  let ?resp = "\<lparr>Type = 12, GetInnerMessage = Inl (Error ''no relay message found'')\<rparr>"
  have two: "j = 0 \<or> j = Suc 0" if "j \<le> 1" for j :: nat using that by auto
  have rd4: "readOnce ?E4 1500 w0 = ((?junk, None), ?w2)"
    by (simp add: readOnce_def ReadFrom_def SetReadDeadline_def log_event_def example_env_def
          net_offer4_def w0_def Let_def)
  have rd6: "readOnce ?E6 4096 w0 = ((?junk, None), ?w2)"
    by (simp add: readOnce_def ReadFrom_def SetReadDeadline_def log_event_def example_env_def
          net_advertise6_def w0_def Let_def)
  have rdr: "readOnce ?Er 4096 w0 = ((?relay, None), ?wr)"
    by (simp add: readOnce_def ReadFrom_def SetReadDeadline_def log_event_def example_env_def
          net_relay6_def w0_def Let_def)
  have dec4: "FromBytes4 ?E4 ?junk = Inl (Error ''buffer too short'')"
    by (simp add: example_env_def example_FromBytes4_def)
  have dec6: "FromBytes6 ?E6 ?junk = Inl (Error ''buffer too short'')"
    by (simp add: example_env_def example_FromBytes6_def)
  have decr: "FromBytes6 ?Er ?relay = Inr ?resp"
    by (simp add: example_env_def example_FromBytes6_def)
  have a: "recvLoopV4 ?E4 eth0 example_req4 w0 = recvLoopV4 ?E4 eth0 example_req4 ?w2"
    using bad_packets_are_skipped[of ?E4 w0 ?junk "Error ''buffer too short''" eth0
        example_req4, THEN conjunct1] rd4 dec4 example_not_timeout_nil
    by simp
  have b: "recvLoopV6 ?E6 example_req6 w0 = recvLoopV6 ?E6 example_req6 ?w2"
    using bad_packets_are_skipped[of ?E6 w0 ?junk "Error ''buffer too short''" _ _
        example_req6, THEN conjunct2, THEN conjunct1] rd6 dec6 example_not_timeout_nil
    by simp
  have c: "recvLoopV6 ?Er example_req6 w0 = recvLoopV6 ?Er example_req6 ?wr"
    using bad_packets_are_skipped[of ?Er w0 ?relay "Error ''no relay message found''" _ _
        example_req6 ?resp, THEN conjunct2, THEN conjunct2, THEN conjunct1]
      rdr decr example_not_timeout_nil
    by simp
  have env4: "NewRawUDPConn ?E4 ''eth0'' 68 = (True, None) \<and>
      WriteToErr ?E4 (ToBytes4 ?E4 example_req4) example_dst4 = None"
    by (simp add: example_env_def)
  have env6: "NewIPv6UDPConn ?E6 ''eth0'' DefaultClientPort = (True, None) \<and>
      WriteToErr ?E6 (ToBytes6 ?E6 example_req6) example_dst6 = None"
    by (simp add: example_env_def)
  have "inTime ?E4 w0 0" "inTime ?E4 w0 (Suc 0)"
    by (simp_all add: inTime_def arrival_def example_env_def net_offer4_def w0_def)
  then have t4: "\<forall>j\<le>1. inTime ?E4 w0 j" using two by auto
  have "inTime ?E6 w0 0" "inTime ?E6 w0 (Suc 0)"
    by (simp_all add: inTime_def arrival_def example_env_def net_advertise6_def w0_def)
  then have t6: "\<forall>j\<le>1. inTime ?E6 w0 j" using two by auto
  have d4: "\<forall>j<1. \<exists>p. datagram ?E4 (received w0 + j) = Some p \<and>
      droppedV4 ?E4 eth0 example_req4 (take 1500 p)"
    by (simp add: datagram_def droppedV4_def example_env_def net_offer4_def w0_def
          example_FromBytes4_def)
  have d6: "\<forall>j<1. \<exists>p. datagram ?E6 (received w0 + j) = Some p \<and>
      droppedV6 ?E6 example_req6 (take 4096 p)"
    by (simp add: datagram_def droppedV6_def example_env_def net_advertise6_def w0_def
          example_FromBytes6_def)
  have a4: "\<exists>p. datagram ?E4 (received w0 + 1) = Some p \<and>
      acceptedV4 ?E4 eth0 example_req4 (take 1500 p)"
    by (simp add: datagram_def acceptedV4_def example_env_def net_offer4_def w0_def
          example_FromBytes4_def matchesV4_def Has_def eth0_def example_req4_def
          OpcodeBootReply_def HWTypeEthernet_def)
  have a6: "\<exists>p. datagram ?E6 (received w0 + 1) = Some p \<and>
      acceptedV6 ?E6 example_req6 (take 4096 p)"
    by (simp add: datagram_def acceptedV6_def example_env_def net_advertise6_def w0_def
          example_FromBytes6_def matchesV6_def example_req6_def MessageTypeAdvertise_def)
  have d: "\<exists>w'. CheckIfOtherDHCPServersPresentV4 ?E4 ''eth0'' w0 = Some (Return True None, w')"
    using bad_packets_are_skipped[of ?E4 w0 "[]" "Error []" eth0 example_req4 example_req6
        ?resp "''eth0''" example_dst4 1,
        THEN conjunct2, THEN conjunct2, THEN conjunct2, THEN conjunct1]
      example_prepareV4[of net_offer4] env4 example_not_timeout_nil[of net_offer4] t4 d4 a4
    by blast
  have e: "\<exists>w'. CheckIfOtherDHCPServersPresentV6 ?E6 ''eth0'' w0 = Some (Return True None, w')"
    using bad_packets_are_skipped[of ?E6 w0 "[]" "Error []" eth0 example_req4 example_req6
        ?resp "''eth0''" example_dst6 1,
        THEN conjunct2, THEN conjunct2, THEN conjunct2, THEN conjunct2]
      example_prepareV6[of net_advertise6] env6 example_not_timeout_nil[of net_advertise6]
      t6 d6 a6
    by blast
  from a b c d e show ?thesis by blast
qed

section \<open>Closing the endpoint\<close>

text \<open>
  Claim C8. When the preparation and the bind succeed, whatever the probe returns
  (acceptance, timeout, an error of the send or of a read, a panic), the log it leaves
  is the bind attempt, then calls that are not a close, then one close: the endpoint is
  closed exactly once, as the last call.
\<close>

theorem endpoint_closed_exactly_once:
  "(prepareV4 E ifaceName = Inr p4 \<and> NewRawUDPConn E ifaceName 68 = (True, None) \<and>
    CheckIfOtherDHCPServersPresentV4 E ifaceName w = Some (out, w') \<longrightarrow>
      (\<exists>evs. trace w' = trace w @ EvListen # evs @ [EvClose] \<and> EvClose \<notin> set evs)) \<and>
   (prepareV6 E ifaceName = Inr p6 \<and>
    NewIPv6UDPConn E ifaceName DefaultClientPort = (True, None) \<and>
    CheckIfOtherDHCPServersPresentV6 E ifaceName w = Some (out, w') \<longrightarrow>
      (\<exists>evs. trace w' = trace w @ EvListen # evs @ [EvClose] \<and> EvClose \<notin> set evs))"
proof (intro conjI impI)
  assume a: "prepareV4 E ifaceName = Inr p4 \<and> NewRawUDPConn E ifaceName 68 = (True, None) \<and>
    CheckIfOtherDHCPServersPresentV4 E ifaceName w = Some (out, w')"
  from a have p: "prepareV4 E ifaceName = Inr p4"
    and c: "NewRawUDPConn E ifaceName 68 = (True, None)"
    and r: "CheckIfOtherDHCPServersPresentV4 E ifaceName w = Some (out, w')"
    by blast+
  from r have "listenV4 E ifaceName (fst p4) (fst (snd p4)) (snd (snd p4)) w = Some (out, w')"
    by (simp add: CheckIfOtherDHCPServersPresentV4_def p)
  then show "\<exists>evs. trace w' = trace w @ EvListen # evs @ [EvClose] \<and> EvClose \<notin> set evs"
    using c by (rule listenV4_log)
next
  assume a: "prepareV6 E ifaceName = Inr p6 \<and>
    NewIPv6UDPConn E ifaceName DefaultClientPort = (True, None) \<and>
    CheckIfOtherDHCPServersPresentV6 E ifaceName w = Some (out, w')"
  from a have p: "prepareV6 E ifaceName = Inr p6"
    and c: "NewIPv6UDPConn E ifaceName DefaultClientPort = (True, None)"
    and r: "CheckIfOtherDHCPServersPresentV6 E ifaceName w = Some (out, w')"
    by blast+
  from r have "listenV6 E ifaceName (fst p6) (snd p6) w = Some (out, w')"
    by (simp add: CheckIfOtherDHCPServersPresentV6_def p)
  then show "\<exists>evs. trace w' = trace w @ EvListen # evs @ [EvClose] \<and> EvClose \<notin> set evs"
    using c by (rule listenV6_log)
qed

theorem endpoint_closed_exactly_once_witness:
  "(\<exists>evs. [EvListen, EvWriteTo [1, 1, 9, 9, 9, 9, 2, 0, 0, 0, 0, 1] example_dst4,
           EvSetReadDeadline 3, EvReadFrom [1, 2, 3] None, EvSetReadDeadline 5,
           EvReadFrom [2, 1, 9, 9, 9, 9, 2, 0, 0, 0, 0, 1, 2] None, EvClose] =
          EvListen # evs @ [EvClose] \<and> EvClose \<notin> set evs) \<and>
   (\<exists>evs. [EvListen, EvWriteTo [1, 1, 9, 9, 9, 9, 2, 0, 0, 0, 0, 1] example_dst4,
           EvSetReadDeadline 3, EvReadFrom [1, 2, 3] None, EvSetReadDeadline 5,
           EvReadFrom [] (Some ErrDeadlineExceeded), EvClose] =
          EvListen # evs @ [EvClose] \<and> EvClose \<notin> set evs) \<and>
   (\<exists>evs. [EvListen, EvWriteTo [1, 1, 9, 9, 9, 9, 2, 0, 0, 0, 0, 1] example_dst4,
           EvSetReadDeadline 3, EvReadFrom [] (Some (Error ''network is down'')), EvClose] =
          EvListen # evs @ [EvClose] \<and> EvClose \<notin> set evs) \<and>
   (\<exists>evs. [EvListen, EvWriteTo [1, 1, 9, 9, 9, 9, 2, 0, 0, 0, 0, 1] example_dst4, EvClose] =
          EvListen # evs @ [EvClose] \<and> EvClose \<notin> set evs) \<and>
   (\<exists>evs. [EvListen, EvWriteTo [1, 7, 7, 7, 2, 0, 0, 0, 0, 1] example_dst6,
           EvSetReadDeadline 3, EvReadFrom [1, 2, 3] None, EvSetReadDeadline 5,
           EvReadFrom [2, 7, 7, 7, 2, 0, 0, 0, 0, 1] None, EvClose] =
          EvListen # evs @ [EvClose] \<and> EvClose \<notin> set evs)"
proof -
  let ?Es = "(example_env net_noise)\<lparr>WriteToErr :=
      \<lambda>b a. Some (Error ''network is unreachable'')\<rparr>"
  have ps: "prepareV4 ?Es ''eth0'' = Inr (eth0, example_req4, example_dst4)"
    by (simp add: prepareV4_def example_env_def eth0_def example_req4_def example_dst4_def
          err_of_def Let_def)
  have b4: "NewRawUDPConn (example_env net) ''eth0'' 68 = (True, None)"
    and b6: "NewIPv6UDPConn (example_env net) ''eth0'' DefaultClientPort = (True, None)" for net
    by (simp_all add: example_env_def)
  have bs: "NewRawUDPConn ?Es ''eth0'' 68 = (True, None)" by (simp add: example_env_def)
  note accept = endpoint_closed_exactly_once[THEN conjunct1, THEN mp,
      OF conjI[OF example_prepareV4 conjI[OF b4 example_run_offer4]]]
  note timeout = endpoint_closed_exactly_once[THEN conjunct1, THEN mp,
      OF conjI[OF example_prepareV4 conjI[OF b4 example_run_noise4]]]
  note read_error = endpoint_closed_exactly_once[THEN conjunct1, THEN mp,
      OF conjI[OF example_prepareV4 conjI[OF b4 example_run_error4]]]
  note send_error = endpoint_closed_exactly_once[THEN conjunct1, THEN mp,
      OF conjI[OF ps conjI[OF bs example_run_send_error4]]]
  note accept6 = endpoint_closed_exactly_once[THEN conjunct2, THEN mp,
      OF conjI[OF example_prepareV6 conjI[OF b6 example_run_advertise6]]]
  from accept timeout read_error send_error accept6 show ?thesis
    by (simp add: w0_def)
qed

section \<open>The read deadline\<close>

text \<open>
  Claim C1. The read deadline is to be set once before the receive loop, so that the
  whole loop ends within one \<open>defaultDiscoverTime\<close> of its first read; the doc comments
  of both probes promise as much ("waits for a response for a period defined by
  \<open>defaultDiscoverTime\<close>"). The code does not keep to it: lines 89 and 178 set the
  deadline inside the loop. On the example host (discover time 3, start at time 0) with
  one malformed datagram at time 2 and nothing after it, both probes set the deadline
  twice, to 3 and then to 5, and return \<open>(false, nil)\<close> at time 5, later than 0 + 3.
\<close>

theorem single_window_exceeded:
  "CheckIfOtherDHCPServersPresentV4 (example_env net_noise) ''eth0'' w0 =
     Some (Return False None,
       \<lparr>clock = 5, deadline = Some 5, received = 1,
        trace = [EvListen, EvWriteTo [1, 1, 9, 9, 9, 9, 2, 0, 0, 0, 0, 1] example_dst4,
                 EvSetReadDeadline 3, EvReadFrom [1, 2, 3] None, EvSetReadDeadline 5,
                 EvReadFrom [] (Some ErrDeadlineExceeded), EvClose]\<rparr>) \<and>
   CheckIfOtherDHCPServersPresentV6 (example_env net_noise) ''eth0'' w0 =
     Some (Return False None,
       \<lparr>clock = 5, deadline = Some 5, received = 1,
        trace = [EvListen, EvWriteTo [1, 7, 7, 7, 2, 0, 0, 0, 0, 1] example_dst6,
                 EvSetReadDeadline 3, EvReadFrom [1, 2, 3] None, EvSetReadDeadline 5,
                 EvReadFrom [] (Some ErrDeadlineExceeded), EvClose]\<rparr>) \<and>
   clock w0 = 0 \<and>
   defaultDiscoverTime (example_env net_noise) = 3 \<and>
   deadlinesSet
     [EvListen, EvWriteTo [1, 1, 9, 9, 9, 9, 2, 0, 0, 0, 0, 1] example_dst4,
      EvSetReadDeadline 3, EvReadFrom [1, 2, 3] None, EvSetReadDeadline 5,
      EvReadFrom [] (Some ErrDeadlineExceeded), EvClose] = 2 \<and>
   \<not> clock (snd (the (CheckIfOtherDHCPServersPresentV4 (example_env net_noise) ''eth0'' w0)))
       \<le> clock w0 + defaultDiscoverTime (example_env net_noise) \<and>
   \<not> clock (snd (the (CheckIfOtherDHCPServersPresentV6 (example_env net_noise) ''eth0'' w0)))
       \<le> clock w0 + defaultDiscoverTime (example_env net_noise)"
proof -
  have c: "clock w0 = 0" by (simp add: w0_def)
  have t: "defaultDiscoverTime (example_env net_noise) = 3" by (simp add: example_env_def)
  show ?thesis
    by (simp add: example_run_noise4 example_run_noise6 c t deadlinesSet_def)
qed

text \<open>
  What the code does instead: every iteration sets the deadline anew, to its own time plus
  \<open>defaultDiscoverTime\<close>. A single read returns within \<open>defaultDiscoverTime\<close> of its
  start; a loop that returns after \<open>n\<close> reads has set \<open>n\<close> deadlines, and the only
  bound on its time is \<open>n * defaultDiscoverTime\<close>.
\<close>

lemma deadline_set_for_every_read:
  "trace (snd (readOnce E sz w)) =
     trace w @ [EvSetReadDeadline (clock w + defaultDiscoverTime E),
                EvReadFrom (fst (fst (readOnce E sz w))) (snd (fst (readOnce E sz w)))] \<and>
   clock (snd (readOnce E sz w)) \<le> clock w + defaultDiscoverTime E \<and>
   (recvLoopV4 E iface req4 w = Some (out, w') \<longrightarrow>
      (\<exists>evs. trace w' = trace w @ evs \<and> deadlinesSet evs = reads evs \<and> 0 < reads evs \<and>
             clock w' \<le> clock w + reads evs * defaultDiscoverTime E)) \<and>
   (recvLoopV6 E req6 w = Some (out, w') \<longrightarrow>
      (\<exists>evs. trace w' = trace w @ evs \<and> deadlinesSet evs = reads evs \<and> 0 < reads evs \<and>
             clock w' \<le> clock w + reads evs * defaultDiscoverTime E))"
proof (intro conjI impI)
  show "trace (snd (readOnce E sz w)) =
     trace w @ [EvSetReadDeadline (clock w + defaultDiscoverTime E),
                EvReadFrom (fst (fst (readOnce E sz w))) (snd (fst (readOnce E sz w)))]"
    by (rule readOnce_trace)
next
  show "clock (snd (readOnce E sz w)) \<le> clock w + defaultDiscoverTime E"
    by (rule readOnce_clock_upper)
next
  assume "recvLoopV4 E iface req4 w = Some (out, w')"
  from recvLoopV4_log[OF this]
  show "\<exists>evs. trace w' = trace w @ evs \<and> deadlinesSet evs = reads evs \<and> 0 < reads evs \<and>
             clock w' \<le> clock w + reads evs * defaultDiscoverTime E"
    by blast
next
  assume "recvLoopV6 E req6 w = Some (out, w')"
  from recvLoopV6_log[OF this]
  show "\<exists>evs. trace w' = trace w @ evs \<and> deadlinesSet evs = reads evs \<and> 0 < reads evs \<and>
             clock w' \<le> clock w + reads evs * defaultDiscoverTime E"
    by blast
qed

lemma deadline_set_for_every_read_example:
  "(\<exists>evs. [EvSetReadDeadline 3, EvReadFrom [1, 2, 3] None, EvSetReadDeadline 5,
           EvReadFrom [] (Some ErrDeadlineExceeded)] = evs \<and>
          deadlinesSet evs = reads evs \<and> 0 < reads evs \<and>
          5 \<le> reads evs * defaultDiscoverTime (example_env net_noise)) \<and>
   recvLoopV4 (example_env net_noise) eth0 example_req4 w0 =
     Some (Return False None,
       \<lparr>clock = 5, deadline = Some 5, received = 1,
        trace = [EvSetReadDeadline 3, EvReadFrom [1, 2, 3] None, EvSetReadDeadline 5,
                 EvReadFrom [] (Some ErrDeadlineExceeded)]\<rparr>) \<and>
   recvLoopV6 (example_env net_noise) example_req6 w0 =
     Some (Return False None,
       \<lparr>clock = 5, deadline = Some 5, received = 1,
        trace = [EvSetReadDeadline 3, EvReadFrom [1, 2, 3] None, EvSetReadDeadline 5,
                 EvReadFrom [] (Some ErrDeadlineExceeded)]\<rparr>)"
proof -
  note th = deadline_set_for_every_read[of "example_env net_noise" 1500 w0 eth0 example_req4
      "Return False None"
      "\<lparr>clock = 5, deadline = Some 5, received = 1,
        trace = [EvSetReadDeadline 3, EvReadFrom [1, 2, 3] None, EvSetReadDeadline 5,
                 EvReadFrom [] (Some ErrDeadlineExceeded)]\<rparr>" example_req6]
  from th[THEN conjunct2, THEN conjunct2, THEN conjunct1, THEN mp, OF example_loop_noise4]
    th[THEN conjunct2, THEN conjunct2, THEN conjunct2, THEN mp, OF example_loop_noise6]
    example_loop_noise4 example_loop_noise6
  show ?thesis by (simp add: w0_def)
qed

text \<open>
  The number of reads has no bound of its own: under a flood of malformed datagrams every
  read returns at once with its deadline ahead, and neither loop ever returns.
\<close>

lemma flood_read:
  "fst (readOnce (example_env net_flood) sz w) = (take sz [1, 2, 3], None)"
  by (simp add: readOnce_def ReadFrom_def SetReadDeadline_def log_event_def Let_def
        example_env_def net_flood_def)

lemma flood_never_returns:
  "recvLoopV4 (example_env net_flood) iface req w = None \<and>
   recvLoopV6 (example_env net_flood) req6 w = None"
proof -
  let ?E = "example_env net_flood"
  have nt: "\<not> isTimeout ?E None" by (rule example_not_timeout_nil)
  have d4: "FromBytes4 ?E [1, 2, 3] = Inl (Error ''buffer too short'')"
    by (simp add: example_env_def example_FromBytes4_def)
  have d6: "FromBytes6 ?E [1, 2, 3] = Inl (Error ''buffer too short'')"
    by (simp add: example_env_def example_FromBytes6_def)
  have "False" if "recvLoopV4 ?E iface req w = Some (out, w')" for out w'
    using that
  proof (induction rule: recvLoopV4_induct)
    case (timeout w b err)
    then show ?case using flood_read[of 1500 w] nt by simp
  next
    case (read_error w b err)
    then show ?case using flood_read[of 1500 w] by simp
  next
    case (accept w b response)
    then show ?case using flood_read[of 1500 w] d4 by simp
  qed
  then have a: "recvLoopV4 ?E iface req w = None"
    by (cases "recvLoopV4 ?E iface req w") auto
  have "False" if "recvLoopV6 ?E req6 w = Some (out, w')" for out w'
    using that
  proof (induction rule: recvLoopV6_induct)
    case (timeout w b err)
    then show ?case using flood_read[of 4096 w] nt by simp
  next
    case (read_error w b err)
    then show ?case using flood_read[of 4096 w] by simp
  next
    case (panic w b resp msg)
    then show ?case using flood_read[of 4096 w] d6 by simp
  next
    case (accept w b resp msg)
    then show ?case using flood_read[of 4096 w] d6 by simp
  qed
  then have b: "recvLoopV6 ?E req6 w = None"
    by (cases "recvLoopV6 ?E req6 w") auto
  from a b show ?thesis by simp
qed

end
